theory Spec2Isabelle
  imports Complex_Main
begin

section \<open>Data model\<close>

text \<open>
  The store keeps its data in JSON files and one in-memory dictionary.
  Stock levels, quantities and identifiers are Python integers, modelled as \<open>int\<close>.
  Dictionary keys are \<open>str(product_id)\<close> and \<open>str(customer_id)\<close>; since \<open>str\<close> is
  injective on integers, the maps below are keyed by the integer itself.
\<close>

subsection \<open>Amounts of money\<close>

text \<open>
  Costs, prices, totals and balances are Python floats: IEEE 754 doubles. A (finite)
  double is a real number, so an amount is a value of type \<open>real\<close>; comparison,
  negation and \<open>abs\<close> of doubles are exact and are those of the reals. The sum, the
  difference and the product of two doubles, the floor division \<open>//\<close> and the conversion
  of an \<open>int\<close> operand are rounded by Python. These operations are not defined here:
  they are the fields of the record \<open>python\<close>, which every function that computes an
  amount takes as its first argument, and which the two handlers find in their
  environment. No statement below supposes anything about them; in particular none
  supposes that they are exact. The integer literals \<open>0\<close>, \<open>2\<close> and \<open>100\<close> of the source
  are the doubles \<open>0.0\<close>, \<open>2.0\<close> and \<open>100.0\<close> when they meet a float. Infinities, NaN
  and the \<open>OverflowError\<close> of converting an integer beyond the range of the doubles are
  outside the model.

  The record also holds \<open>str.lower\<close>, which the invoice writers use to build a file
  name.
\<close>

record python =
  py_add :: "real \<Rightarrow> real \<Rightarrow> real"
  py_sub :: "real \<Rightarrow> real \<Rightarrow> real"
  py_mul :: "real \<Rightarrow> real \<Rightarrow> real"
  py_floordiv :: "real \<Rightarrow> real \<Rightarrow> real"
  py_float :: "int \<Rightarrow> real"
  py_lower :: "string \<Rightarrow> string"

subsection \<open>Records of the JSON files\<close>

record product =
  name :: string
  stock :: int
  cost :: real

type_synonym catalog = "int \<rightharpoonup> product"

text \<open>A wallet of \<open>wallets.json\<close>; the card fields are not needed here.\<close>

record wallet =
  balance :: real

text \<open>One entry of \<open>customer_transactions.json\<close> (written by \<open>log_customer_transaction\<close>).\<close>

record ledger_entry =
  tx_id :: nat
  tx_type :: string
  tx_amount :: real
  tx_description :: string
  balance_after :: real
  tx_timestamp :: string
  tx_date :: string

record customer =
  total_spent :: real
  purchase_count :: int
  points :: real
  last_purchase :: "string option"

record sale =
  sale_id :: nat
  sale_customer :: int
  sale_product :: int
  sale_product_name :: string
  sale_quantity :: int
  unit_price :: real
  total_price :: real
  sale_timestamp :: string

text \<open>One entry of \<open>transactions.json\<close> (written by \<open>log_transaction\<close>).\<close>

record transaction =
  tr_id :: nat
  tr_customer :: int
  tr_amount :: real
  tr_type :: string
  tr_description :: string
  tr_timestamp :: string

record admin_wallet_rec =
  admin_balance :: real
  total_revenue :: real
  total_transactions :: int
  last_updated :: "string option"

text \<open>An item of the invoice built by the first loop of \<open>purchase\<close>.\<close>

record item =
  item_name :: string
  qty :: int
  free :: int
  price :: real

record invoice =
  inv_customer :: string
  inv_items :: "item list"
  inv_total :: real
  inv_timestamp :: string

text \<open>A restock invoice: the vendor, the lines (product id, quantity, line cost), the total.\<close>

type_synonym restock_invoice = "string \<times> (int \<times> int \<times> real) list \<times> real"

text \<open>
  The whole persistent and in-memory state. \<open>products\<close> is the module-level dictionary
  of \<open>read_ops\<close>; \<open>products_file\<close> is the content of \<open>products.json\<close>; the other
  fields are the contents of the respective JSON files and of the two invoice folders.
  An invoice folder maps a file name to the data from which the file of that name was
  last written: writing an invoice under the name of an existing file replaces that
  file. The text of an invoice file is not modelled (it prints every amount with two
  decimals).
\<close>

record store =
  products :: catalog
  products_file :: catalog
  wallets :: "int \<rightharpoonup> wallet"
  customer_transactions :: "int \<rightharpoonup> ledger_entry list"
  customers :: "int \<rightharpoonup> customer"
  sales :: "sale list"
  transactions :: "transaction list"
  admin_wallet :: admin_wallet_rec
  purchase_invoices :: "string \<rightharpoonup> invoice"
  restock_invoices :: "string \<rightharpoonup> restock_invoice"

section \<open>Loyalty tier (\<open>customer_ops.get_loyalty_tier\<close>)\<close>

text \<open>
  The function returns one of five string literals; they are modelled as an enumeration,
  \<open>TNone\<close> standing for \<open>'none'\<close>.
\<close>

datatype tier = TNone | Bronze | Silver | Gold | Diamond

definition get_loyalty_tier :: "int \<Rightarrow> tier" where
  "get_loyalty_tier pts =
     (if pts \<ge> 2000 then Diamond
      else if pts \<ge> 1000 then Gold
      else if pts \<ge> 500 then Silver
      else if pts \<ge> 100 then Bronze
      else TNone)"

text \<open>The order of the tiers that the specification speaks of: none, bronze, silver, gold, diamond.\<close>

fun tier_rank :: "tier \<Rightarrow> nat" where
  "tier_rank TNone = 0"
| "tier_rank Bronze = 1"
| "tier_rank Silver = 2"
| "tier_rank Gold = 3"
| "tier_rank Diamond = 4"

section \<open>Catalog store (\<open>read_ops\<close>)\<close>

text \<open>
  \<open>load_products\<close> compares the wall clock with the time of the last load. The clock is
  not modelled; the environment says which of the three outcomes a call has:
  \<^item> \<open>Throttled\<close>: the last load or save was less than 0.5 seconds ago (or less than 2
    seconds ago and \<open>force\<close> is not set), the call returns \<open>True\<close> without reading;
  \<^item> \<open>Fresh\<close>: the file is read and replaces the dictionary, the call returns \<open>True\<close>;
  \<^item> \<open>LoadError\<close>: reading raises, the file exists, the call returns \<open>False\<close> and the
    dictionary is as it was (\<open>products.clear()\<close> comes after \<open>json.load\<close>).

  The file is taken to hold a JSON object whenever it can be read: \<open>save_products\<close> and
  \<open>create_default_products\<close>, its only writers, dump a dictionary.
\<close>

datatype load_env = Throttled | Fresh | LoadError

definition load_products :: "load_env \<Rightarrow> store \<Rightarrow> bool \<times> store" where
  "load_products e s =
     (case e of
        Throttled \<Rightarrow> (True, s)
      | Fresh \<Rightarrow> (True, s\<lparr>products := products_file s\<rparr>)
      | LoadError \<Rightarrow> (False, s))"

text \<open>
  \<open>save_products\<close> writes the dictionary to the file. The flag says whether the write
  succeeded; a failed write is taken to leave the file as it was. The reload that
  follows a successful write runs right after \<open>_last_update_time\<close> was set and is
  therefore throttled.
\<close>

definition save_products :: "bool \<Rightarrow> store \<Rightarrow> bool \<times> store" where
  "save_products ok s =
     (if ok then load_products Throttled (s\<lparr>products_file := products s\<rparr>)
      else (False, s))"

datatype stock_error =
    FailedToLoad
  | ProductNotFound
  | InsufficientStock int
  | FailedToSave

record stock_env =
  se_load :: load_env
  se_save :: bool

text \<open>
  \<open>update_product_stock(product_id, quantity_change)\<close>. The result is \<open>Inr (old_stock,
  new_stock)\<close> for \<open>{'success': True, ...}\<close> and \<open>Inl error\<close> for \<open>{'success': False,
  'error': ...}\<close>; \<open>InsufficientStock n\<close> is the message \<open>Insufficient stock. Available: n\<close>.
\<close>

definition update_product_stock ::
  "stock_env \<Rightarrow> int \<Rightarrow> int \<Rightarrow> store \<Rightarrow> (stock_error + int \<times> int) \<times> store" where
  "update_product_stock e product_id quantity_change s =
     (case load_products (se_load e) s of
        (False, s1) \<Rightarrow> (Inl FailedToLoad, s1)
      | (True, s1) \<Rightarrow>
          (case products s1 product_id of
             None \<Rightarrow> (Inl ProductNotFound, s1)
           | Some product \<Rightarrow>
               let old_stock = stock product;
                   new_stock = old_stock + quantity_change
               in if new_stock < 0 then (Inl (InsufficientStock old_stock), s1)
                  else
                    let s2 = s1\<lparr>products := (products s1)(product_id \<mapsto> product\<lparr>stock := new_stock\<rparr>)\<rparr>
                    in (case save_products (se_save e) s2 of
                          (True, s3) \<Rightarrow> (Inr (old_stock, new_stock), s3)
                        | (False, s3) \<Rightarrow>
                            (Inl FailedToSave,
                             s3\<lparr>products := (products s3)(product_id \<mapsto> product\<lparr>stock := old_stock\<rparr>)\<rparr>))))"

section \<open>Customer wallet and ledger (\<open>customer_ops\<close>)\<close>

text \<open>
  The JSON files and their folders are taken to exist, so that the \<open>init_\<close> functions do
  nothing. Every function below that reads or writes a file does so inside
  \<open>try\<close>/\<open>except\<close>; a flag of the environment says whether its file operations
  succeeded (a failed write is taken to leave the file as it was). The wall clock is
  read through \<open>clock\<close>: \<open>now\<close> is \<open>strftime('%Y-%m-%d %H:%M:%S')\<close>, \<open>today\<close> is
  \<open>strftime('%Y-%m-%d')\<close>.
\<close>

record clock =
  now :: string
  today :: string

definition get_customer_wallet :: "bool \<Rightarrow> int \<Rightarrow> store \<Rightarrow> wallet option" where
  "get_customer_wallet io_ok customer_id s =
     (if io_ok then wallets s customer_id else None)"

definition get_wallet_balance :: "bool \<Rightarrow> int \<Rightarrow> store \<Rightarrow> real" where
  "get_wallet_balance io_ok customer_id s =
     (case get_customer_wallet io_ok customer_id s of
        Some w \<Rightarrow> balance w
      | None \<Rightarrow> 0)"

text \<open>
  \<open>log_customer_transaction\<close>. The caller may pass \<open>None\<close> as \<open>balance_after\<close> (the result
  of a failed \<open>update_wallet_balance\<close>); \<open>float(None)\<close> raises inside the \<open>try\<close>, and the
  function returns \<open>False\<close> without writing.
\<close>

definition log_customer_transaction ::
  "bool \<Rightarrow> clock \<Rightarrow> int \<Rightarrow> string \<Rightarrow> real \<Rightarrow> string \<Rightarrow> real option \<Rightarrow> store \<Rightarrow> bool \<times> store" where
  "log_customer_transaction io_ok clk customer_id transaction_type amount description bal s =
     (if \<not> io_ok then (False, s)
      else
        (case bal of
           None \<Rightarrow> (False, s)
         | Some b \<Rightarrow>
             let existing = (case customer_transactions s customer_id of None \<Rightarrow> [] | Some l \<Rightarrow> l);
                 entry = \<lparr>tx_id = length existing + 1, tx_type = transaction_type,
                          tx_amount = amount, tx_description = description,
                          balance_after = b, tx_timestamp = now clk, tx_date = today clk\<rparr>
             in (True, s\<lparr>customer_transactions :=
                          (customer_transactions s)(customer_id \<mapsto> existing @ [entry])\<rparr>)))"

text \<open>
  \<open>update_wallet_balance(customer_id, amount)\<close> returns the new balance, or \<open>None\<close> when
  the wallet is missing or its file could not be read or written. The result of the
  ledger write is dropped, as in the source.
\<close>

definition update_wallet_balance ::
  "python \<Rightarrow> bool \<Rightarrow> bool \<Rightarrow> clock \<Rightarrow> int \<Rightarrow> real \<Rightarrow> store \<Rightarrow> real option \<times> store" where
  "update_wallet_balance py io_ok log_ok clk customer_id amount s =
     (if \<not> io_ok then (None, s)
      else
        (case wallets s customer_id of
           None \<Rightarrow> (None, s)
         | Some w \<Rightarrow>
             let new_balance = py_add py (balance w) amount;
                 s1 = s\<lparr>wallets := (wallets s)(customer_id \<mapsto> w\<lparr>balance := new_balance\<rparr>)\<rparr>;
                 transaction_type = (if amount > 0 then ''add'' else ''withdraw'');
                 description = (if amount > 0 then ''Money added to wallet''
                                else ''Money withdrawn from wallet'');
                 s2 = snd (log_customer_transaction log_ok clk customer_id transaction_type
                             \<bar>amount\<bar> description (Some new_balance) s1)
             in (Some new_balance, s2)))"

text \<open>\<open>update_customer_purchase\<close>: the result is \<open>Some points_earned\<close> on success.\<close>

definition update_customer_purchase ::
  "python \<Rightarrow> bool \<Rightarrow> clock \<Rightarrow> int \<Rightarrow> real \<Rightarrow> store \<Rightarrow> real option \<times> store" where
  "update_customer_purchase py io_ok clk customer_id amount s =
     (if \<not> io_ok then (None, s)
      else
        (case customers s customer_id of
           None \<Rightarrow> (None, s)
         | Some c \<Rightarrow>
             let points_earned = py_floordiv py amount 100;
                 c' = c\<lparr>total_spent := py_add py (total_spent c) amount,
                        purchase_count := purchase_count c + 1,
                        last_purchase := Some (today clk),
                        points := py_add py (points c) points_earned\<rparr>
             in (Some points_earned, s\<lparr>customers := (customers s)(customer_id \<mapsto> c')\<rparr>)))"

section \<open>Admin wallet, sales and transaction logs (\<open>admin_ops\<close>)\<close>

definition default_admin_wallet :: admin_wallet_rec where
  "default_admin_wallet =
     \<lparr>admin_balance = 50000, total_revenue = 0, total_transactions = 0, last_updated = None\<rparr>"

definition get_admin_wallet :: "bool \<Rightarrow> store \<Rightarrow> admin_wallet_rec" where
  "get_admin_wallet io_ok s = (if io_ok then admin_wallet s else default_admin_wallet)"

definition update_admin_wallet ::
  "python \<Rightarrow> bool \<Rightarrow> clock \<Rightarrow> real \<Rightarrow> string \<Rightarrow> store \<Rightarrow> admin_wallet_rec option \<times> store" where
  "update_admin_wallet py io_ok clk amount transaction_type s =
     (if \<not> io_ok then (None, s)
      else
        let w = admin_wallet s;
            w1 = (if transaction_type = ''revenue''
                  then w\<lparr>admin_balance := py_add py (admin_balance w) amount,
                         total_revenue := py_add py (total_revenue w) amount\<rparr>
                  else if transaction_type = ''expense''
                  then w\<lparr>admin_balance := py_sub py (admin_balance w) amount\<rparr>
                  else w);
            w2 = w1\<lparr>total_transactions := total_transactions w1 + 1,
                    last_updated := Some (now clk)\<rparr>
        in (Some w2, s\<lparr>admin_wallet := w2\<rparr>))"

definition add_revenue_to_admin ::
  "python \<Rightarrow> bool \<Rightarrow> clock \<Rightarrow> real \<Rightarrow> store \<Rightarrow> admin_wallet_rec option \<times> store" where
  "add_revenue_to_admin py io_ok clk amount s =
     update_admin_wallet py io_ok clk amount ''revenue'' s"

definition deduct_admin_balance ::
  "python \<Rightarrow> bool \<Rightarrow> clock \<Rightarrow> real \<Rightarrow> store \<Rightarrow> admin_wallet_rec option \<times> store" where
  "deduct_admin_balance py io_ok clk amount s =
     update_admin_wallet py io_ok clk amount ''expense'' s"

definition log_sale ::
  "bool \<Rightarrow> clock \<Rightarrow> int \<Rightarrow> int \<Rightarrow> string \<Rightarrow> int \<Rightarrow> real \<Rightarrow> real \<Rightarrow> string option \<Rightarrow> store
     \<Rightarrow> bool \<times> store" where
  "log_sale io_ok clk customer_id product_id product_name quantity u_price t_price timestamp s =
     (if \<not> io_ok then (False, s)
      else
        let ts = (case timestamp of None \<Rightarrow> now clk | Some t \<Rightarrow> t);
            sale_record = \<lparr>sale_id = length (sales s) + 1, sale_customer = customer_id,
                            sale_product = product_id, sale_product_name = product_name,
                            sale_quantity = quantity, unit_price = u_price,
                            total_price = t_price, sale_timestamp = ts\<rparr>
        in (True, s\<lparr>sales := sales s @ [sale_record]\<rparr>))"

definition log_transaction ::
  "bool \<Rightarrow> clock \<Rightarrow> int \<Rightarrow> real \<Rightarrow> string \<Rightarrow> string \<Rightarrow> store \<Rightarrow> bool \<times> store" where
  "log_transaction io_ok clk customer_id amount transaction_type description s =
     (if \<not> io_ok then (False, s)
      else
        let tr = \<lparr>tr_id = length (transactions s) + 1, tr_customer = customer_id,
                   tr_amount = amount, tr_type = transaction_type,
                   tr_description = description, tr_timestamp = now clk\<rparr>
        in (True, s\<lparr>transactions := transactions s @ [tr]\<rparr>))"

section \<open>The purchase handler (\<open>app.purchase\<close>, POST)\<close>

datatype py_exception = KeyError int

datatype purchase_flash =
    IdentityVerificationFailed
  | CardVerificationFailed
  | NoProductsSelected
  | NotEnoughStock string int
  | InsufficientWalletBalance real real
  | ErrorUpdatingStock string stock_error
  | ErrorGeneratingInvoice
  | ErrorDuringPurchase py_exception
  | PurchaseCompleted

text \<open>
  The environment of one POST request of a logged-in customer: the arithmetic of the
  interpreter, the outcomes of the two verification calls (which only read), of every
  file operation in the order of the handler, and the clock. \<open>pe_stock i\<close> and \<open>pe_sale_io i\<close> belong to the line at
  position \<open>i\<close> of \<open>purchased_items\<close>.
\<close>

record purchase_env =
  pe_python :: python
  pe_balance_read :: bool
  pe_identity_ok :: bool
  pe_card_ok :: bool
  pe_reload :: load_env
  pe_stock :: "nat \<Rightarrow> stock_env"
  pe_timestamp :: string
  pe_invoice :: bool
  pe_wallet_io :: bool
  pe_wallet_log :: bool
  pe_customer_io :: bool
  pe_purchase_log :: bool
  pe_sale_io :: "nat \<Rightarrow> bool"
  pe_transaction_io :: bool
  pe_admin_io :: bool
  pe_final_reload :: load_env
  pe_clock :: clock

text \<open>Decimal rendering of \<open>len(purchased_items)\<close> in the description strings.\<close>

fun str_nat :: "nat \<Rightarrow> string" where
  "str_nat n =
     (if n < 10 then [char_of (48 + n)]
      else str_nat (n div 10) @ [char_of (48 + n mod 10)])"

text \<open>
  The first loop: ``Check stock availability for all items''. A line whose product is
  not in the dictionary is passed over. The loop stops at the first line that asks for
  more than the stock, with the product's name and stock for the message.
\<close>

fun check_stock_availability ::
  "python \<Rightarrow> catalog \<Rightarrow> (int \<times> int) list \<Rightarrow> item list \<Rightarrow> real
     \<Rightarrow> (string \<times> int) + (item list \<times> real)" where
  "check_stock_availability py ps [] items total' = Inr (items, total')"
| "check_stock_availability py ps ((product_id, q) # rest) items total' =
     (case ps product_id of
        None \<Rightarrow> check_stock_availability py ps rest items total'
      | Some p \<Rightarrow>
          let fr = q div 3;
              required = q + fr
          in if required > stock p then Inl (name p, stock p)
             else
               let pr = py_mul py (py_mul py (cost p) 2) (py_float py q)
               in check_stock_availability py ps rest
                    (items @ [\<lparr>item_name = name p, qty = q, free = fr, price = pr\<rparr>])
                    (py_add py total' pr))"

text \<open>
  The second loop: ``Update stock for all items''. \<open>products[str(product_id)]\<close> raises
  \<open>KeyError\<close> for a product that is not in the dictionary. The list \<open>stock_updates\<close> is
  only appended to and never read; it is left out.
\<close>

datatype stock_loop_stop = Raised py_exception | UpdateFailed string stock_error

fun update_stock_for_items ::
  "(nat \<Rightarrow> stock_env) \<Rightarrow> nat \<Rightarrow> (int \<times> int) list \<Rightarrow> store \<Rightarrow> stock_loop_stop option \<times> store" where
  "update_stock_for_items env i [] s = (None, s)"
| "update_stock_for_items env i ((product_id, q) # rest) s =
     (case products s product_id of
        None \<Rightarrow> (Some (Raised (KeyError product_id)), s)
      | Some p \<Rightarrow>
          let fr = q div 3;
              required = q + fr
          in (case update_product_stock (env i) product_id (- required) s of
                (Inl err, s') \<Rightarrow> (Some (UpdateFailed (name p) err), s')
              | (Inr r, s') \<Rightarrow> update_stock_for_items env (Suc i) rest s'))"

text \<open>
  File names of invoices (\<open>write_ops\<close>): \<open>x.replace(' ', '_')\<close>, \<open>x.replace('-', '')\<close> and
  the two ways of naming the items.
\<close>

definition spaces_to_underscores :: "string \<Rightarrow> string" where
  "spaces_to_underscores x = map (\<lambda>c. if c = CHR '' '' then CHR ''_'' else c) x"

definition remove_dashes :: "string \<Rightarrow> string" where
  "remove_dashes x = filter (\<lambda>c. c \<noteq> CHR ''-'') x"

definition purchase_invoice_filename :: "python \<Rightarrow> string \<Rightarrow> item list \<Rightarrow> string \<Rightarrow> string" where
  "purchase_invoice_filename py customer_name items timestamp =
     (let item_part =
            (case items of
               [] \<Rightarrow> ''purchase''
             | it # rest \<Rightarrow>
                 let first_item = py_lower py (spaces_to_underscores (item_name it))
                 in if length items > 1
                    then first_item @ ''_and_'' @ str_nat (length items - 1) @ ''_more''
                    else first_item)
      in spaces_to_underscores customer_name @ ''_'' @ item_part @ ''_'' @
         remove_dashes timestamp @ ''.txt'')"

definition restock_invoice_filename :: "string \<Rightarrow> string list \<Rightarrow> string \<Rightarrow> string" where
  "restock_invoice_filename vendor_name restocked_items timestamp =
     (let items_part =
            (case restocked_items of
               [] \<Rightarrow> ''restock''
             | [a] \<Rightarrow> a
             | [a, b] \<Rightarrow> a @ ''_and_'' @ b
             | a # rest \<Rightarrow> a @ ''_and_'' @ str_nat (length restocked_items - 1) @ ''_more'')
      in spaces_to_underscores vendor_name @ ''_'' @ items_part @ ''_'' @
         remove_dashes timestamp @ ''.txt'')"

text \<open>
  \<open>save_purchase_invoice\<close> writes the invoice under its file name, replacing a file of
  that name; the result is \<open>True\<close> when a file name is returned and \<open>False\<close> when \<open>None\<close>
  is (the file could not be written, and is taken to be as it was). The model keeps the
  arguments of the call, from which the text of the file is made: the customer, the
  items, the total and the date.
\<close>

definition save_purchase_invoice ::
  "python \<Rightarrow> bool \<Rightarrow> string \<Rightarrow> item list \<Rightarrow> real \<Rightarrow> string \<Rightarrow> store \<Rightarrow> bool \<times> store" where
  "save_purchase_invoice py ok customer_name items total' timestamp s =
     (if ok
      then (True, s\<lparr>purchase_invoices := (purchase_invoices s)
                      (purchase_invoice_filename py customer_name items timestamp \<mapsto>
                         \<lparr>inv_customer = customer_name, inv_items = items,
                          inv_total = total', inv_timestamp = timestamp\<rparr>)\<rparr>)
      else (False, s))"

text \<open>The third loop: ``Log sales for analytics''.\<close>

fun log_sales ::
  "python \<Rightarrow> (nat \<Rightarrow> bool) \<Rightarrow> clock \<Rightarrow> int \<Rightarrow> string \<Rightarrow> nat \<Rightarrow> (int \<times> int) list \<Rightarrow> store
     \<Rightarrow> store" where
  "log_sales py io clk customer_id timestamp i [] s = s"
| "log_sales py io clk customer_id timestamp i ((product_id, q) # rest) s =
     (case products s product_id of
        None \<Rightarrow> log_sales py io clk customer_id timestamp (Suc i) rest s
      | Some p \<Rightarrow>
          log_sales py io clk customer_id timestamp (Suc i) rest
            (snd (log_sale (io i) clk customer_id product_id (name p) q
                    (py_mul py (cost p) 2)
                    (py_mul py (py_mul py (cost p) 2) (py_float py q))
                    (Some timestamp) s)))"

text \<open>
  The part of the handler after the \<open>try\<close> block, reached when the invoice could not be
  written or an exception was caught: the products are reloaded and the form is rendered.
\<close>

definition render_purchase_form :: "purchase_env \<Rightarrow> store \<Rightarrow> store" where
  "render_purchase_form e s = snd (load_products (pe_final_reload e) s)"

text \<open>
  ``Collect purchased items'': \<open>form_items\<close> are the pairs (product id, quantity) of the
  form fields whose value is a string of digits, in the order of the form; those with
  quantity 0 are dropped. The restock handler collects its items in the same way.
\<close>

definition collect_items :: "(int \<times> int) list \<Rightarrow> (int \<times> int) list" where
  "collect_items form_items = filter (\<lambda>(product_id, quantity). quantity > 0) form_items"

text \<open>
  The block under \<open>if filename:\<close>, run once the invoice is written: the wallet is debited,
  the customer record updated, the purchase logged in the customer's ledger, one sale
  logged per line with a known product, the transaction logged and the admin wallet
  credited. None of the results is looked at, except \<open>new_balance\<close>, which goes into the
  ledger entry.
\<close>

definition complete_purchase ::
  "purchase_env \<Rightarrow> int \<Rightarrow> (int \<times> int) list \<Rightarrow> real \<Rightarrow> store \<Rightarrow> store" where
  "complete_purchase e customer_id purchased_items total' s2 =
     (let py = pe_python e;
          clk = pe_clock e;
          description = ''Purchase: '' @ str_nat (length purchased_items) @ '' items'';
          (new_balance, s3) =
            update_wallet_balance py (pe_wallet_io e) (pe_wallet_log e) clk customer_id
              (- total') s2;
          s4 = snd (update_customer_purchase py (pe_customer_io e) clk customer_id total' s3);
          s5 = snd (log_customer_transaction (pe_purchase_log e) clk customer_id ''purchase''
                      total' description new_balance s4);
          s6 = log_sales py (pe_sale_io e) clk customer_id (pe_timestamp e) 0 purchased_items s5;
          s7 = snd (log_transaction (pe_transaction_io e) clk customer_id total' ''revenue''
                      description s6)
      in snd (add_revenue_to_admin py (pe_admin_io e) clk total' s7))"

text \<open>
  The handler, for a customer that is logged in. The result is the flashed message and
  the state the request leaves behind.
\<close>

definition purchase ::
  "purchase_env \<Rightarrow> int \<Rightarrow> string \<Rightarrow> (int \<times> int) list \<Rightarrow> store \<Rightarrow> purchase_flash \<times> store" where
  "purchase e customer_id verify_name form_items s =
     (let wallet_balance = get_wallet_balance (pe_balance_read e) customer_id s;
          purchased_items = collect_items form_items
      in
      if \<not> pe_identity_ok e then (IdentityVerificationFailed, s)
      else if \<not> pe_card_ok e then (CardVerificationFailed, s)
      else if purchased_items = [] then (NoProductsSelected, s)
      else
        let s0 = snd (load_products (pe_reload e) s) in
        (case check_stock_availability (pe_python e) (products s0) purchased_items [] 0 of
           Inl (n, available) \<Rightarrow> (NotEnoughStock n available, s0)
         | Inr (items, total') \<Rightarrow>
             if total' > wallet_balance
             then (InsufficientWalletBalance total' wallet_balance, s0)
             else
               (case update_stock_for_items (pe_stock e) 0 purchased_items s0 of
                  (Some (Raised ex), s1) \<Rightarrow> (ErrorDuringPurchase ex, render_purchase_form e s1)
                | (Some (UpdateFailed n err), s1) \<Rightarrow> (ErrorUpdatingStock n err, s1)
                | (None, s1) \<Rightarrow>
                    (case save_purchase_invoice (pe_python e) (pe_invoice e) verify_name
                            items total' (pe_timestamp e) s1 of
                       (False, s2) \<Rightarrow> (ErrorGeneratingInvoice, render_purchase_form e s2)
                     | (True, s2) \<Rightarrow>
                         (PurchaseCompleted,
                          complete_purchase e customer_id purchased_items total' s2)))))"

section \<open>The restock handler (\<open>app.admin_restock\<close>, POST)\<close>

datatype restock_flash =
    EnterVendorName
  | SelectProduct
  | ProductIdNotFound int
  | InsufficientAdminBalance real real
  | ErrorRestocking string stock_error
  | RestockingCompleted real
  | RestockingCompletedWalletFailed
  | ErrorDuringRestocking py_exception

record stock_update =
  su_product_id :: int
  su_amount :: int
  su_cost :: real
  su_product_name :: string

record restock_env =
  re_python :: python
  re_wallet_read :: bool
  re_stock :: "nat \<Rightarrow> stock_env"
  re_admin_io :: bool
  re_invoice :: bool
  re_final_reload :: load_env
  re_render_reload :: load_env
  re_clock :: clock

text \<open>``Calculate total cost first'': the loop returns at the first unknown product id.\<close>

fun calculate_total_cost ::
  "python \<Rightarrow> catalog \<Rightarrow> (int \<times> int) list \<Rightarrow> real \<Rightarrow> stock_update list
     \<Rightarrow> int + (real \<times> stock_update list)" where
  "calculate_total_cost py ps [] total_cost stock_updates = Inr (total_cost, stock_updates)"
| "calculate_total_cost py ps ((product_id, amount) # rest) total_cost stock_updates =
     (case ps product_id of
        Some p \<Rightarrow>
          let c = py_mul py (py_float py amount) (cost p)
          in calculate_total_cost py ps rest (py_add py total_cost c)
               (stock_updates @ [\<lparr>su_product_id = product_id, su_amount = amount,
                                   su_cost = c, su_product_name = name p\<rparr>])
      | None \<Rightarrow> Inl product_id)"

text \<open>``Update stock for all items''.\<close>

fun restock_all_items ::
  "(nat \<Rightarrow> stock_env) \<Rightarrow> nat \<Rightarrow> stock_update list \<Rightarrow> store \<Rightarrow> (string \<times> stock_error) option \<times> store" where
  "restock_all_items env i [] s = (None, s)"
| "restock_all_items env i (u # rest) s =
     (case update_product_stock (env i) (su_product_id u) (su_amount u) s of
        (Inl err, s') \<Rightarrow> (Some (su_product_name u, err), s')
      | (Inr r, s') \<Rightarrow> restock_all_items env (Suc i) rest s')"

text \<open>
  \<open>write_ops.generate_restock_invoice\<close> looks every product up with
  \<open>products[str(product_id)]\<close>, which raises \<open>KeyError\<close> for an unknown one, and adds the
  line costs up itself. The file is named after the vendor, the products and the day,
  and replaces a file of that name. The result is \<open>Inr True\<close> when the file was written
  and \<open>Inr False\<close> when writing failed.
\<close>

definition generate_restock_invoice ::
  "python \<Rightarrow> bool \<Rightarrow> clock \<Rightarrow> (int \<times> int \<times> real) list \<Rightarrow> string \<Rightarrow> real \<Rightarrow> store
     \<Rightarrow> (py_exception + bool) \<times> store" where
  "generate_restock_invoice py ok clk session_items vendor_name total_cost s =
     (case find (\<lambda>(product_id, amount, item_cost). products s product_id = None) session_items of
        Some (product_id, rest) \<Rightarrow> (Inl (KeyError product_id), s)
      | None \<Rightarrow>
          let grand_total = foldl (\<lambda>acc (product_id, amount, item_cost). py_add py acc item_cost) 0
                              session_items;
              restocked_items =
                List.map_filter (\<lambda>(product_id, amount, item_cost).
                    map_option (\<lambda>p. py_lower py (spaces_to_underscores (name p)))
                      (products s product_id))
                  session_items;
              filename = restock_invoice_filename vendor_name restocked_items (today clk)
          in if ok
             then (Inr True, s\<lparr>restock_invoices := (restock_invoices s)
                                 (filename \<mapsto> (vendor_name, session_items, grand_total))\<rparr>)
             else (Inr False, s))"

text \<open>
  The handler, for an admin that is logged in. \<open>form_items\<close> are the pairs of the form
  fields \<open>qty_<id>\<close> whose value is a string of digits. The result is the list of
  flashed messages, in order, and the state the request leaves behind.
\<close>

definition admin_restock ::
  "restock_env \<Rightarrow> string \<Rightarrow> (int \<times> int) list \<Rightarrow> store \<Rightarrow> restock_flash list \<times> store" where
  "admin_restock e vendor_name form_items s =
     (let admin_w = get_admin_wallet (re_wallet_read e) s;
          restock_items = collect_items form_items
      in
      if vendor_name = [] then ([EnterVendorName], s)
      else if restock_items = [] then ([SelectProduct], s)
      else
        (case calculate_total_cost (re_python e) (products s) restock_items 0 [] of
           Inl product_id \<Rightarrow> ([ProductIdNotFound product_id], s)
         | Inr (total_cost, stock_updates) \<Rightarrow>
             if total_cost > admin_balance admin_w
             then ([InsufficientAdminBalance total_cost (admin_balance admin_w)], s)
             else
               (case restock_all_items (re_stock e) 0 stock_updates s of
                  (Some (product_name, err), s1) \<Rightarrow> ([ErrorRestocking product_name err], s1)
                | (None, s1) \<Rightarrow>
                    let (admin_wallet_update, s2) =
                          deduct_admin_balance (re_python e) (re_admin_io e) (re_clock e)
                            total_cost s1;
                        msg = (if admin_wallet_update \<noteq> None then RestockingCompleted total_cost
                               else RestockingCompletedWalletFailed);
                        session_items = map (\<lambda>u. (su_product_id u, su_amount u, su_cost u))
                                          stock_updates
                    in (case (if stock_updates \<noteq> []
                              then generate_restock_invoice (re_python e) (re_invoice e)
                                     (re_clock e) session_items vendor_name total_cost s2
                              else (Inr False, s2)) of
                          (Inl ex, s3) \<Rightarrow>
                            ([msg, ErrorDuringRestocking ex],
                             snd (load_products (re_render_reload e) s3))
                        | (Inr written, s3) \<Rightarrow>
                            ([msg], snd (load_products (re_final_reload e) s3))))))"

section \<open>Sequences of requests\<close>

datatype request =
    PurchaseRequest purchase_env int string "(int \<times> int) list"
  | RestockRequest restock_env string "(int \<times> int) list"

fun handle_request :: "request \<Rightarrow> store \<Rightarrow> store" where
  "handle_request (PurchaseRequest e customer_id verify_name form_items) s =
     snd (purchase e customer_id verify_name form_items s)"
| "handle_request (RestockRequest e vendor_name form_items) s =
     snd (admin_restock e vendor_name form_items s)"

fun run_requests :: "request list \<Rightarrow> store \<Rightarrow> store" where
  "run_requests [] s = s"
| "run_requests (r # rs) s = run_requests rs (handle_request r s)"

section \<open>Notions used in the statements\<close>

text \<open>
  The definitions of this section are not part of the program. They name what the
  specification talks about, so that the theorems can be stated.
\<close>

text \<open>Everything but the catalog: two states agree outside the catalog when these are equal.\<close>

definition outside_catalog :: "store \<Rightarrow> store" where
  "outside_catalog s = s\<lparr>products := Map.empty, products_file := Map.empty\<rparr>"

text \<open>No product has a negative stock, neither in the dictionary nor in the file.\<close>

definition stock_nonneg :: "store \<Rightarrow> bool" where
  "stock_nonneg s \<longleftrightarrow>
     (\<forall>product_id p. products s product_id = Some p \<longrightarrow> 0 \<le> stock p) \<and>
     (\<forall>product_id p. products_file s product_id = Some p \<longrightarrow> 0 \<le> stock p)"

definition same_catalog :: "store \<Rightarrow> store \<Rightarrow> bool" where
  "same_catalog s s' \<longleftrightarrow> products s' = products s \<and> products_file s' = products_file s"


text \<open>``Buy 3 get 1 free'': the units a line of quantity \<open>q\<close> takes from the stock.\<close>

definition required_units :: "int \<Rightarrow> int" where
  "required_units q = q + q div 3"

text \<open>Every line with a known product asks for no more than that product's stock.\<close>

definition stock_suffices :: "catalog \<Rightarrow> (int \<times> int) list \<Rightarrow> bool" where
  "stock_suffices ps ls \<longleftrightarrow>
     list_all (\<lambda>(product_id, q).
        case ps product_id of None \<Rightarrow> True | Some p \<Rightarrow> required_units q \<le> stock p) ls"



text \<open>
  The sum of a list of amounts as Python adds them up: from \<open>0\<close>, one after the other,
  with the addition of the interpreter.
\<close>

definition py_sum :: "python \<Rightarrow> real list \<Rightarrow> real" where
  "py_sum py xs = foldl (py_add py) 0 xs"

text \<open>
  The invoice line of the specification for quantity \<open>q\<close> of product \<open>p\<close>: \<open>q div 3\<close>
  free units, and \<open>q\<close> units charged at twice the cost, the product \<open>cost * 2 * q\<close>
  being taken from left to right with the multiplication of the interpreter.
  \<open>invoice_lines\<close> are the invoice lines of the lines whose product is in the catalog,
  in order.
\<close>

definition invoice_line :: "python \<Rightarrow> product \<Rightarrow> int \<Rightarrow> item" where
  "invoice_line py p q =
     \<lparr>item_name = name p, qty = q, free = q div 3,
      price = py_mul py (py_mul py (cost p) 2) (py_float py q)\<rparr>"

definition invoice_lines :: "python \<Rightarrow> catalog \<Rightarrow> (int \<times> int) list \<Rightarrow> item list" where
  "invoice_lines py ps ls =
     List.map_filter (\<lambda>(product_id, q). map_option (\<lambda>p. invoice_line py p q) (ps product_id)) ls"

text \<open>The cost of a restock line: quantity times the product's cost.\<close>

definition line_cost :: "python \<Rightarrow> catalog \<Rightarrow> int \<times> int \<Rightarrow> real" where
  "line_cost py ps l =
     (case l of (product_id, amount) \<Rightarrow>
        (case ps product_id of
           None \<Rightarrow> 0
         | Some p \<Rightarrow> py_mul py (py_float py amount) (cost p)))"


subsection \<open>A small shop, for the examples\<close>

text \<open>
  Two products, one customer (number 7) with a wallet of 5000, the admin wallet as
  \<open>init_admin_wallet\<close> creates it, and environments in which every file operation succeeds.
  All amounts of the examples are integers far below \<open>2 ^ 53\<close>, and so are their sums,
  differences and products: on them the operations of the doubles are exact, and
  \<open>example_python\<close> computes what Python computes. The names of the examples are ASCII,
  and \<open>str.lower\<close> maps \<open>A\<close> to \<open>Z\<close> to \<open>a\<close> to \<open>z\<close>.
\<close>

definition ascii_lower :: "char \<Rightarrow> char" where
  "ascii_lower c =
     (let n = (of_char c :: nat) in if 65 \<le> n \<and> n \<le> 90 then char_of (n + 32) else c)"

definition example_python :: python where
  "example_python =
     \<lparr>py_add = (\<lambda>a b. a + b), py_sub = (\<lambda>a b. a - b), py_mul = (\<lambda>a b. a * b),
      py_floordiv = (\<lambda>a b. of_int \<lfloor>a / b\<rfloor>), py_float = of_int,
      py_lower = map ascii_lower\<rparr>"

definition example_products :: catalog where
  "example_products =
     [1 \<mapsto> \<lparr>name = ''Face Mask'', stock = 20, cost = 100\<rparr>,
      2 \<mapsto> \<lparr>name = ''Skin Cleanser'', stock = 5, cost = 280\<rparr>]"

definition example_store :: store where
  "example_store =
     \<lparr>products = example_products, products_file = example_products,
      wallets = [7 \<mapsto> \<lparr>balance = 5000\<rparr>],
      customer_transactions = Map.empty,
      customers = [7 \<mapsto> \<lparr>total_spent = 0, purchase_count = 0, points = 0,
                          last_purchase = None\<rparr>],
      sales = [], transactions = [],
      admin_wallet = default_admin_wallet,
      purchase_invoices = Map.empty, restock_invoices = Map.empty\<rparr>"

text \<open>The same shop after some trading: the admin wallet has a history.\<close>

definition example_admin_wallet :: admin_wallet_rec where
  "example_admin_wallet =
     \<lparr>admin_balance = 51200, total_revenue = 1200, total_transactions = 3,
      last_updated = Some ''2025-11-19 17:40:12''\<rparr>"

definition example_store_trading :: store where
  "example_store_trading = example_store\<lparr>admin_wallet := example_admin_wallet\<rparr>"

definition io_fine :: stock_env where
  "io_fine = \<lparr>se_load = Fresh, se_save = True\<rparr>"

definition example_clock :: clock where
  "example_clock = \<lparr>now = ''2025-11-20 10:15:00'', today = ''2025-11-20''\<rparr>"

definition example_purchase_env :: purchase_env where
  "example_purchase_env =
     \<lparr>pe_python = example_python, pe_balance_read = True, pe_identity_ok = True,
      pe_card_ok = True, pe_reload = Fresh,
      pe_stock = (\<lambda>i. io_fine), pe_timestamp = ''2025-11-20'', pe_invoice = True,
      pe_wallet_io = True, pe_wallet_log = True, pe_customer_io = True,
      pe_purchase_log = True, pe_sale_io = (\<lambda>i. True), pe_transaction_io = True,
      pe_admin_io = True, pe_final_reload = Fresh, pe_clock = example_clock\<rparr>"

definition example_restock_env :: restock_env where
  "example_restock_env =
     \<lparr>re_python = example_python, re_wallet_read = True, re_stock = (\<lambda>i. io_fine), re_admin_io = True,
      re_invoice = True, re_final_reload = Fresh, re_render_reload = Fresh,
      re_clock = example_clock\<rparr>"

section \<open>Lemmas about the operations\<close>

lemma load_products_eq:
  "load_products l s = (l \<noteq> LoadError, if l = Fresh then s\<lparr>products := products_file s\<rparr> else s)"
  by (cases l) (simp_all add: load_products_def)

lemma update_product_stock_eq:
  "update_product_stock e pid d s =
     (if se_load e = LoadError then (Inl FailedToLoad, s)
      else
        let s1 = (if se_load e = Fresh then s\<lparr>products := products_file s\<rparr> else s) in
        (case products s1 pid of
           None \<Rightarrow> (Inl ProductNotFound, s1)
         | Some p \<Rightarrow>
             if stock p + d < 0 then (Inl (InsufficientStock (stock p)), s1)
             else if se_save e
             then (Inr (stock p, stock p + d),
                   s1\<lparr>products := (products s1)(pid \<mapsto> p\<lparr>stock := stock p + d\<rparr>),
                      products_file := (products s1)(pid \<mapsto> p\<lparr>stock := stock p + d\<rparr>)\<rparr>)
             else (Inl FailedToSave, s1)))"
  unfolding update_product_stock_def load_products_eq save_products_def
  by (auto simp: Let_def map_upd_triv split: option.splits)

lemma load_products_nonneg: "stock_nonneg s \<Longrightarrow> stock_nonneg (snd (load_products l s))"
  by (simp add: load_products_eq stock_nonneg_def)

lemma update_product_stock_nonneg:
  "stock_nonneg s \<Longrightarrow> stock_nonneg (snd (update_product_stock e pid d s))"
  unfolding update_product_stock_eq
  by (auto simp: stock_nonneg_def Let_def split: option.splits if_splits)

lemma update_stock_for_items_nonneg:
  "stock_nonneg s \<Longrightarrow> stock_nonneg (snd (update_stock_for_items env i ls s))"
proof (induction ls arbitrary: i s)
  case Nil
  then show ?case by simp
next
  case (Cons l ls)
  obtain pid q where l: "l = (pid, q)" by (cases l)
  show ?case
  proof (cases "products s pid")
    case None
    with Cons.prems l show ?thesis by simp
  next
    case (Some p)
    obtain res s' where r: "update_product_stock (env i) pid (- (q + q div 3)) s = (res, s')"
      by (cases "update_product_stock (env i) pid (- (q + q div 3)) s")
    have inv: "stock_nonneg s'"
      using update_product_stock_nonneg[OF Cons.prems, of "env i" pid "- (q + q div 3)"] r by simp
    show ?thesis
    proof (cases res)
      case (Inl err)
      then show ?thesis using inv l Some r by (simp add: Let_def)
    next
      case (Inr ok)
      then show ?thesis using Cons.IH[OF inv, of "Suc i"] l Some r by (simp add: Let_def)
    qed
  qed
qed

lemma restock_all_items_nonneg:
  "stock_nonneg s \<Longrightarrow> stock_nonneg (snd (restock_all_items env i us s))"
proof (induction us arbitrary: i s)
  case Nil
  then show ?case by simp
next
  case (Cons u us)
  obtain res s' where r: "update_product_stock (env i) (su_product_id u) (su_amount u) s = (res, s')"
    by (cases "update_product_stock (env i) (su_product_id u) (su_amount u) s")
  have inv: "stock_nonneg s'"
    using update_product_stock_nonneg[OF Cons.prems, of "env i" "su_product_id u" "su_amount u"] r
    by simp
  show ?case
  proof (cases res)
    case (Inl err)
    then show ?thesis using inv r by simp
  next
    case (Inr ok)
    then show ?thesis using Cons.IH[OF inv, of "Suc i"] r by simp
  qed
qed

lemma same_catalog_refl: "same_catalog s s"
  by (simp add: same_catalog_def)

lemma same_catalog_trans [trans]: "same_catalog s s' \<Longrightarrow> same_catalog s' s'' \<Longrightarrow> same_catalog s s''"
  by (simp add: same_catalog_def)

lemma same_catalog_nonneg: "same_catalog s s' \<Longrightarrow> stock_nonneg s' = stock_nonneg s"
  by (simp add: same_catalog_def stock_nonneg_def)

lemma log_customer_transaction_catalog:
  "same_catalog s (snd (log_customer_transaction io clk cid ty a d b s))"
  by (simp add: log_customer_transaction_def same_catalog_def Let_def split: option.splits)

lemma update_wallet_balance_catalog:
  "same_catalog s (snd (update_wallet_balance py io lg clk cid a s))"
  by (simp add: update_wallet_balance_def log_customer_transaction_def same_catalog_def Let_def
        split: option.splits)

lemma update_customer_purchase_catalog:
  "same_catalog s (snd (update_customer_purchase py io clk cid a s))"
  by (simp add: update_customer_purchase_def same_catalog_def Let_def split: option.splits)

lemma update_admin_wallet_catalog:
  "same_catalog s (snd (update_admin_wallet py io clk a ty s))"
  by (simp add: update_admin_wallet_def same_catalog_def Let_def)

lemma log_sale_catalog:
  "same_catalog s (snd (log_sale io clk cid pid pn q up tp ts s))"
  by (simp add: log_sale_def same_catalog_def Let_def)

lemma log_transaction_catalog:
  "same_catalog s (snd (log_transaction io clk cid a ty d s))"
  by (simp add: log_transaction_def same_catalog_def Let_def)

lemma save_purchase_invoice_catalog:
  "same_catalog s (snd (save_purchase_invoice py ok cn its t ts s))"
  by (simp add: save_purchase_invoice_def same_catalog_def)

lemma generate_restock_invoice_catalog:
  "same_catalog s (snd (generate_restock_invoice py ok clk its vn tc s))"
  by (simp add: generate_restock_invoice_def same_catalog_def Let_def split: option.splits prod.splits)

lemma log_sales_catalog:
  "same_catalog s (log_sales py io clk cid ts i ls s)"
proof (induction ls arbitrary: i s)
  case Nil
  show ?case by (simp add: same_catalog_refl)
next
  case (Cons l ls)
  obtain pid q where l: "l = (pid, q)" by (cases l)
  show ?case
  proof (cases "products s pid")
    case None
    then show ?thesis using Cons.IH[of s "Suc i"] l by simp
  next
    case (Some p)
    let ?s' = "snd (log_sale (io i) clk cid pid (name p) q (py_mul py (cost p) 2)
                      (py_mul py (py_mul py (cost p) 2) (py_float py q)) (Some ts) s)"
    have "same_catalog s ?s'" by (rule log_sale_catalog)
    moreover have "same_catalog ?s' (log_sales py io clk cid ts (Suc i) ls ?s')" by (rule Cons.IH)
    ultimately show ?thesis using l Some by (simp add: same_catalog_def)
  qed
qed

lemma purchase_gates:
  "\<not> (pe_identity_ok e \<and> pe_card_ok e \<and> collect_items form \<noteq> []) \<Longrightarrow>
   snd (purchase e cid vn form s) = s \<and> fst (purchase e cid vn form s) \<noteq> PurchaseCompleted"
  by (auto simp: purchase_def Let_def)

lemma purchase_not_enough_stock:
  assumes "pe_identity_ok e" "pe_card_ok e" "collect_items form \<noteq> []"
    and "check_stock_availability (pe_python e) (products (snd (load_products (pe_reload e) s)))
           (collect_items form) [] 0 = Inl (n, a)"
  shows "purchase e cid vn form s = (NotEnoughStock n a, snd (load_products (pe_reload e) s))"
  using assms by (simp add: purchase_def Let_def)

lemma purchase_insufficient_balance:
  assumes "pe_identity_ok e" "pe_card_ok e" "collect_items form \<noteq> []"
    and "check_stock_availability (pe_python e) (products (snd (load_products (pe_reload e) s)))
           (collect_items form) [] 0 = Inr (items, t)"
    and "t > get_wallet_balance (pe_balance_read e) cid s"
  shows "purchase e cid vn form s =
           (InsufficientWalletBalance t (get_wallet_balance (pe_balance_read e) cid s),
            snd (load_products (pe_reload e) s))"
  using assms by (simp add: purchase_def Let_def)

lemma purchase_after_checks:
  assumes "pe_identity_ok e" "pe_card_ok e" "collect_items form \<noteq> []"
    and "check_stock_availability (pe_python e) (products (snd (load_products (pe_reload e) s)))
           (collect_items form) [] 0 = Inr (items, t)"
    and "t \<le> get_wallet_balance (pe_balance_read e) cid s"
    and "update_stock_for_items (pe_stock e) 0 (collect_items form)
           (snd (load_products (pe_reload e) s)) = (stop, s1)"
  shows "purchase e cid vn form s =
           (case stop of
              Some (Raised ex) \<Rightarrow> (ErrorDuringPurchase ex, render_purchase_form e s1)
            | Some (UpdateFailed n err) \<Rightarrow> (ErrorUpdatingStock n err, s1)
            | None \<Rightarrow>
                if pe_invoice e
                then (PurchaseCompleted,
                      complete_purchase e cid (collect_items form) t
                        (snd (save_purchase_invoice (pe_python e) True vn items t (pe_timestamp e) s1)))
                else (ErrorGeneratingInvoice, render_purchase_form e s1))"
  using assms
  by (simp add: purchase_def Let_def save_purchase_invoice_def
        split: option.splits stock_loop_stop.splits)

lemma check_stock_availability_Inr:
  "check_stock_availability py ps ls items t = Inr (items', t') \<Longrightarrow>
     items' = items @ invoice_lines py ps ls \<and>
     t' = foldl (py_add py) t (map price (invoice_lines py ps ls)) \<and>
     stock_suffices ps ls"
proof (induction ls arbitrary: items t)
  case Nil
  then show ?case by (simp add: invoice_lines_def map_filter_simps stock_suffices_def)
next
  case (Cons l ls)
  obtain pid q where l: "l = (pid, q)" by (cases l)
  show ?case
  proof (cases "ps pid")
    case None
    with Cons.prems l have "check_stock_availability py ps ls items t = Inr (items', t')" by simp
    from Cons.IH[OF this] show ?thesis using None l
      by (simp add: invoice_lines_def map_filter_simps stock_suffices_def)
  next
    case (Some p)
    with Cons.prems l have le: "q + q div 3 \<le> stock p"
      by (simp add: Let_def split: if_splits)
    with Cons.prems l Some have
      "check_stock_availability py ps ls
         (items @ [\<lparr>item_name = name p, qty = q, free = q div 3,
                     price = py_mul py (py_mul py (cost p) 2) (py_float py q)\<rparr>])
         (py_add py t (py_mul py (py_mul py (cost p) 2) (py_float py q))) = Inr (items', t')"
      by (simp add: Let_def)
    from Cons.IH[OF this] show ?thesis using Some l le
      by (simp add: invoice_lines_def map_filter_simps stock_suffices_def invoice_line_def required_units_def)
  qed
qed

lemma check_stock_availability_suffices:
  "stock_suffices ps ls \<Longrightarrow>
     check_stock_availability py ps ls items t =
       Inr (items @ invoice_lines py ps ls,
            foldl (py_add py) t (map price (invoice_lines py ps ls)))"
proof (induction ls arbitrary: items t)
  case Nil
  then show ?case by (simp add: invoice_lines_def map_filter_simps)
next
  case (Cons l ls)
  obtain pid q where l: "l = (pid, q)" by (cases l)
  from Cons.prems have rest: "stock_suffices ps ls" by (simp add: stock_suffices_def)
  show ?case
  proof (cases "ps pid")
    case None
    then show ?thesis using Cons.IH[OF rest] l by (simp add: invoice_lines_def map_filter_simps)
  next
    case (Some p)
    with Cons.prems l have le: "q + q div 3 \<le> stock p"
      by (simp add: stock_suffices_def required_units_def)
    show ?thesis using Cons.IH[OF rest] Some l le
      by (simp add: invoice_lines_def map_filter_simps invoice_line_def Let_def)
  qed
qed

lemma check_stock_availability_Inl:
  "\<not> stock_suffices ps ls \<Longrightarrow> \<exists>n a. check_stock_availability py ps ls items t = Inl (n, a)"
proof (induction ls arbitrary: items t)
  case Nil
  then show ?case by (simp add: stock_suffices_def)
next
  case (Cons l ls)
  obtain pid q where l: "l = (pid, q)" by (cases l)
  show ?case
  proof (cases "ps pid")
    case None
    with Cons.prems l have "\<not> stock_suffices ps ls" by (simp add: stock_suffices_def)
    from Cons.IH[OF this] show ?thesis using None l by simp
  next
    case (Some p)
    show ?thesis
    proof (cases "q + q div 3 \<le> stock p")
      case True
      with Cons.prems l Some have "\<not> stock_suffices ps ls"
        by (simp add: stock_suffices_def required_units_def)
      from Cons.IH[OF this] show ?thesis using Some l True by (simp add: Let_def)
    next
      case False
      then show ?thesis using Some l by (simp add: Let_def)
    qed
  qed
qed

lemma load_products_outside: "outside_catalog (snd (load_products l s)) = outside_catalog s"
  by (simp add: load_products_eq outside_catalog_def)

lemma update_product_stock_outside:
  "outside_catalog (snd (update_product_stock e pid d s)) = outside_catalog s"
  unfolding update_product_stock_eq
  by (simp add: outside_catalog_def Let_def split: option.splits)



lemma update_stock_for_items_outside:
  "outside_catalog (snd (update_stock_for_items env i ls s)) = outside_catalog s"
proof (induction ls arbitrary: i s)
  case Nil
  show ?case by simp
next
  case (Cons l ls)
  obtain pid q where l: "l = (pid, q)" by (cases l)
  show ?case
  proof (cases "products s pid")
    case None
    with l show ?thesis by simp
  next
    case (Some p)
    obtain res s' where r: "update_product_stock (env i) pid (- (q + q div 3)) s = (res, s')"
      by (cases "update_product_stock (env i) pid (- (q + q div 3)) s")
    have out: "outside_catalog s' = outside_catalog s"
      using update_product_stock_outside[of "env i" pid "- (q + q div 3)" s] r by simp
    show ?thesis
    proof (cases res)
      case (Inl err)
      then show ?thesis using out l Some r by (simp add: Let_def)
    next
      case (Inr ok)
      then show ?thesis using Cons.IH[of "Suc i" s'] out l Some r by (simp add: Let_def)
    qed
  qed
qed



lemma outside_catalog_fields:
  assumes "outside_catalog s' = outside_catalog s"
  shows "wallets s' = wallets s" "customer_transactions s' = customer_transactions s"
    "customers s' = customers s" "sales s' = sales s" "transactions s' = transactions s"
    "admin_wallet s' = admin_wallet s" "purchase_invoices s' = purchase_invoices s"
    "restock_invoices s' = restock_invoices s"
proof -
  have "wallets (outside_catalog s') = wallets (outside_catalog s)" using assms by simp
  then show "wallets s' = wallets s" by (simp add: outside_catalog_def)
  have "customer_transactions (outside_catalog s') = customer_transactions (outside_catalog s)"
    using assms by simp
  then show "customer_transactions s' = customer_transactions s" by (simp add: outside_catalog_def)
  have "customers (outside_catalog s') = customers (outside_catalog s)" using assms by simp
  then show "customers s' = customers s" by (simp add: outside_catalog_def)
  have "sales (outside_catalog s') = sales (outside_catalog s)" using assms by simp
  then show "sales s' = sales s" by (simp add: outside_catalog_def)
  have "transactions (outside_catalog s') = transactions (outside_catalog s)" using assms by simp
  then show "transactions s' = transactions s" by (simp add: outside_catalog_def)
  have "admin_wallet (outside_catalog s') = admin_wallet (outside_catalog s)" using assms by simp
  then show "admin_wallet s' = admin_wallet s" by (simp add: outside_catalog_def)
  have "purchase_invoices (outside_catalog s') = purchase_invoices (outside_catalog s)"
    using assms by simp
  then show "purchase_invoices s' = purchase_invoices s" by (simp add: outside_catalog_def)
  have "restock_invoices (outside_catalog s') = restock_invoices (outside_catalog s)"
    using assms by simp
  then show "restock_invoices s' = restock_invoices s" by (simp add: outside_catalog_def)
qed


lemma log_customer_transaction_wallets:
  "wallets (snd (log_customer_transaction io clk cid ty a d b s)) = wallets s"
  by (simp add: log_customer_transaction_def Let_def split: option.splits)

lemma update_customer_purchase_frame:
  "wallets (snd (update_customer_purchase py io clk cid a s)) = wallets s"
  "customer_transactions (snd (update_customer_purchase py io clk cid a s)) = customer_transactions s"
  by (simp_all add: update_customer_purchase_def Let_def split: option.splits)

lemma log_sale_frame:
  "wallets (snd (log_sale io clk cid pid pn q up tp ts s)) = wallets s"
  "customer_transactions (snd (log_sale io clk cid pid pn q up tp ts s)) = customer_transactions s"
  by (simp_all add: log_sale_def Let_def)

lemma log_sales_frame:
  "wallets (log_sales py io clk cid ts i ls s) = wallets s \<and>
   customer_transactions (log_sales py io clk cid ts i ls s) = customer_transactions s"
proof (induction ls arbitrary: i s)
  case Nil
  show ?case by simp
next
  case (Cons l ls)
  obtain pid q where l: "l = (pid, q)" by (cases l)
  show ?case
  proof (cases "products s pid")
    case None
    then show ?thesis using Cons.IH[of "Suc i" s] l by simp
  next
    case (Some p)
    then show ?thesis
      using Cons.IH[of "Suc i" "snd (log_sale (io i) clk cid pid (name p) q
                      (py_mul py (cost p) 2)
                      (py_mul py (py_mul py (cost p) 2) (py_float py q)) (Some ts) s)"] l
      by (simp add: log_sale_frame)
  qed
qed

lemma log_transaction_frame:
  "wallets (snd (log_transaction io clk cid a ty d s)) = wallets s"
  "customer_transactions (snd (log_transaction io clk cid a ty d s)) = customer_transactions s"
  by (simp_all add: log_transaction_def Let_def)

lemma update_admin_wallet_frame:
  "wallets (snd (update_admin_wallet py io clk a ty s)) = wallets s"
  "customer_transactions (snd (update_admin_wallet py io clk a ty s)) = customer_transactions s"
  by (simp_all add: update_admin_wallet_def Let_def)



lemma calculate_total_cost_Inr:
  "calculate_total_cost py ps ls t us = Inr (t', us') \<Longrightarrow>
     t' = foldl (py_add py) t (map (line_cost py ps) ls) \<and>
     length us' = length us + length ls \<and>
     (us = [] \<longrightarrow> us' = [] \<longrightarrow> ls = [])"
proof (induction ls arbitrary: t us)
  case Nil
  then show ?case by simp
next
  case (Cons l ls)
  obtain pid q where l: "l = (pid, q)" by (cases l)
  show ?case
  proof (cases "ps pid")
    case None
    with Cons.prems l show ?thesis by simp
  next
    case (Some p)
    with Cons.prems l have
      "calculate_total_cost py ps ls (py_add py t (py_mul py (py_float py q) (cost p)))
         (us @ [\<lparr>su_product_id = pid, su_amount = q,
                  su_cost = py_mul py (py_float py q) (cost p),
                  su_product_name = name p\<rparr>]) = Inr (t', us')"
      by (simp add: Let_def)
    from Cons.IH[OF this] show ?thesis using Some l by (auto simp: line_cost_def)
  qed
qed

lemma restock_all_items_outside:
  "outside_catalog (snd (restock_all_items env i us s)) = outside_catalog s"
proof (induction us arbitrary: i s)
  case Nil
  show ?case by simp
next
  case (Cons u us)
  obtain res s' where r: "update_product_stock (env i) (su_product_id u) (su_amount u) s = (res, s')"
    by (cases "update_product_stock (env i) (su_product_id u) (su_amount u) s")
  have out: "outside_catalog s' = outside_catalog s"
    using update_product_stock_outside[of "env i" "su_product_id u" "su_amount u" s] r by simp
  show ?case
  proof (cases res)
    case (Inl err)
    then show ?thesis using out r by simp
  next
    case (Inr ok)
    then show ?thesis using Cons.IH[of "Suc i" s'] out r by simp
  qed
qed

lemma generate_restock_invoice_admin_wallet:
  "admin_wallet (snd (generate_restock_invoice py ok clk its vn tc s)) = admin_wallet s"
  by (simp add: generate_restock_invoice_def Let_def split: option.splits prod.splits)

lemma load_products_admin_wallet: "admin_wallet (snd (load_products l s)) = admin_wallet s"
  by (simp add: load_products_eq)

lemma update_admin_wallet_ok:
  "update_admin_wallet py True clk a ty s =
     (let w = admin_wallet s;
          w' = \<lparr>admin_balance = (if ty = ''revenue'' then py_add py (admin_balance w) a
                                 else if ty = ''expense'' then py_sub py (admin_balance w) a
                                 else admin_balance w),
                total_revenue = (if ty = ''revenue'' then py_add py (total_revenue w) a
                                 else total_revenue w),
                total_transactions = total_transactions w + 1,
                last_updated = Some (now clk)\<rparr>
      in (Some w', s\<lparr>admin_wallet := w'\<rparr>))"
  by (simp add: update_admin_wallet_def Let_def)

lemma admin_restock_after_checks:
  assumes "v \<noteq> []" "collect_items form \<noteq> []"
    and "calculate_total_cost (re_python e) (products s) (collect_items form) 0 [] = Inr (tc, us)"
    and "\<not> tc > admin_balance (get_admin_wallet (re_wallet_read e) s)"
    and "restock_all_items (re_stock e) 0 us s = (None, s1)"
    and "deduct_admin_balance (re_python e) (re_admin_io e) (re_clock e) tc s1 = (upd, s2)"
    and "(if us \<noteq> []
          then generate_restock_invoice (re_python e) (re_invoice e) (re_clock e)
                 (map (\<lambda>u. (su_product_id u, su_amount u, su_cost u)) us) v tc s2
          else (Inr False, s2)) = (g, s3)"
  shows "admin_restock e v form s =
           (case g of
              Inl ex \<Rightarrow>
                ([if upd \<noteq> None then RestockingCompleted tc else RestockingCompletedWalletFailed,
                  ErrorDuringRestocking ex],
                 snd (load_products (re_render_reload e) s3))
            | Inr written \<Rightarrow>
                ([if upd \<noteq> None then RestockingCompleted tc else RestockingCompletedWalletFailed],
                 snd (load_products (re_final_reload e) s3)))"
  unfolding admin_restock_def Let_def
  using assms(1-6) assms(7)[unfolded Let_def] by (simp split: sum.splits)

lemma admin_restock_completed:
  assumes "RestockingCompleted c \<in> set (fst (admin_restock e v form s))"
  shows "c = py_sum (re_python e)
               (map (line_cost (re_python e) (products s)) (collect_items form)) \<and>
         admin_balance (admin_wallet (snd (admin_restock e v form s))) =
           py_sub (re_python e) (admin_balance (admin_wallet s)) c \<and>
         total_transactions (admin_wallet (snd (admin_restock e v form s))) =
           total_transactions (admin_wallet s) + 1 \<and>
         total_revenue (admin_wallet (snd (admin_restock e v form s))) =
           total_revenue (admin_wallet s)"
proof -
  let ?r = "admin_restock e v form s"
  let ?ls = "collect_items form"
  have v: "v \<noteq> []"
  proof
    assume "v = []"
    then have "fst ?r = [EnterVendorName]" by (simp add: admin_restock_def Let_def)
    with assms show False by simp
  qed
  have ls: "?ls \<noteq> []"
  proof
    assume "?ls = []"
    with v have "fst ?r = [SelectProduct]" by (simp add: admin_restock_def Let_def)
    with assms show False by simp
  qed
  obtain tc us where calc: "calculate_total_cost (re_python e) (products s) ?ls 0 [] = Inr (tc, us)"
  proof (cases "calculate_total_cost (re_python e) (products s) ?ls 0 []")
    case (Inl pid)
    with v ls have "fst ?r = [ProductIdNotFound pid]" by (simp add: admin_restock_def Let_def)
    with assms show ?thesis by simp
  next
    case (Inr x)
    then show ?thesis using that by (cases x) simp
  qed
  have tc: "tc = py_sum (re_python e) (map (line_cost (re_python e) (products s)) ?ls)"
    using calculate_total_cost_Inr[OF calc] by (simp add: py_sum_def)
  have funds: "\<not> tc > admin_balance (get_admin_wallet (re_wallet_read e) s)"
  proof
    assume "tc > admin_balance (get_admin_wallet (re_wallet_read e) s)"
    with v ls calc have "fst ?r = [InsufficientAdminBalance tc
        (admin_balance (get_admin_wallet (re_wallet_read e) s))]"
      by (simp add: admin_restock_def Let_def)
    with assms show False by simp
  qed
  obtain stop s1 where loop: "restock_all_items (re_stock e) 0 us s = (stop, s1)"
    by (cases "restock_all_items (re_stock e) 0 us s")
  have stop: "stop = None"
  proof (cases stop)
    case None
    then show ?thesis .
  next
    case (Some ne)
    obtain n err where "ne = (n, err)" by (cases ne)
    with Some v ls calc funds loop have "fst ?r = [ErrorRestocking n err]"
      by (simp add: admin_restock_def Let_def)
    with assms show ?thesis by simp
  qed
  have "outside_catalog s1 = outside_catalog s"
    using restock_all_items_outside[of "re_stock e" 0 us s] loop by simp
  then have aw1: "admin_wallet s1 = admin_wallet s" by (rule outside_catalog_fields)
  obtain upd s2 where d: "deduct_admin_balance (re_python e) (re_admin_io e) (re_clock e) tc s1 = (upd, s2)"
    by (cases "deduct_admin_balance (re_python e) (re_admin_io e) (re_clock e) tc s1")
  obtain g s3 where g: "(if us \<noteq> []
          then generate_restock_invoice (re_python e) (re_invoice e) (re_clock e)
                 (map (\<lambda>u. (su_product_id u, su_amount u, su_cost u)) us) v tc s2
          else (Inr False, s2)) = (g, s3)"
    by (cases "(if us \<noteq> []
          then generate_restock_invoice (re_python e) (re_invoice e) (re_clock e)
                 (map (\<lambda>u. (su_product_id u, su_amount u, su_cost u)) us) v tc s2
          else (Inr False, s2))")
  have aw3: "admin_wallet s3 = admin_wallet s2"
  proof (cases "us \<noteq> []")
    case True
    with g have "s3 = snd (generate_restock_invoice (re_python e) (re_invoice e) (re_clock e)
                 (map (\<lambda>u. (su_product_id u, su_amount u, su_cost u)) us) v tc s2)" by simp
    then show ?thesis by (simp add: generate_restock_invoice_admin_wallet)
  next
    case False
    with g show ?thesis by simp
  qed
  note r = admin_restock_after_checks[OF v ls calc funds loop[unfolded stop] d g]
  have upd: "upd \<noteq> None" and c: "c = tc"
    using assms unfolding r by (auto split: sum.splits if_splits)
  have fin: "admin_wallet (snd ?r) = admin_wallet s2"
    unfolding r using aw3 by (simp add: load_products_admin_wallet split: sum.splits)
  from upd d have io: "re_admin_io e"
    by (auto simp: deduct_admin_balance_def update_admin_wallet_def split: if_splits)
  have "s2 = snd (update_admin_wallet (re_python e) True (re_clock e) tc ''expense'' s1)"
    using d io by (simp add: deduct_admin_balance_def)
  then show ?thesis
    using fin c tc aw1 by (simp add: update_admin_wallet_ok Let_def)
qed

lemma complete_purchase_catalog: "same_catalog s (complete_purchase e cid ls t s)"
proof -
  let ?clk = "pe_clock e"
  let ?d = "''Purchase: '' @ str_nat (length ls) @ '' items''"
  let ?u = "update_wallet_balance (pe_python e) (pe_wallet_io e) (pe_wallet_log e) ?clk cid (- t) s"
  let ?s3 = "snd ?u"
  let ?s4 = "snd (update_customer_purchase (pe_python e) (pe_customer_io e) ?clk cid t ?s3)"
  let ?s5 = "snd (log_customer_transaction (pe_purchase_log e) ?clk cid ''purchase'' t ?d (fst ?u) ?s4)"
  let ?s6 = "log_sales (pe_python e) (pe_sale_io e) ?clk cid (pe_timestamp e) 0 ls ?s5"
  let ?s7 = "snd (log_transaction (pe_transaction_io e) ?clk cid t ''revenue'' ?d ?s6)"
  let ?s8 = "snd (add_revenue_to_admin (pe_python e) (pe_admin_io e) ?clk t ?s7)"
  have eq: "complete_purchase e cid ls t s = ?s8"
    by (simp add: complete_purchase_def Let_def split_def)
  have "same_catalog s ?s3" by (rule update_wallet_balance_catalog)
  also have "same_catalog ?s3 ?s4" by (rule update_customer_purchase_catalog)
  also have "same_catalog ?s4 ?s5" by (rule log_customer_transaction_catalog)
  also have "same_catalog ?s5 ?s6" by (rule log_sales_catalog)
  also have "same_catalog ?s6 ?s7" by (rule log_transaction_catalog)
  also have "same_catalog ?s7 ?s8"
    unfolding add_revenue_to_admin_def by (rule update_admin_wallet_catalog)
  finally show ?thesis unfolding eq .
qed

lemma purchase_nonneg:
  assumes "stock_nonneg s"
  shows "stock_nonneg (snd (purchase e cid vn form s))"
proof (cases "pe_identity_ok e \<and> pe_card_ok e \<and> collect_items form \<noteq> []")
  case False
  then show ?thesis using purchase_gates[of e form cid vn s] assms by simp
next
  case True
  then have g: "pe_identity_ok e" "pe_card_ok e" "collect_items form \<noteq> []" by simp_all
  let ?s0 = "snd (load_products (pe_reload e) s)"
  have s0: "stock_nonneg ?s0" using assms by (rule load_products_nonneg)
  show ?thesis
  proof (cases "check_stock_availability (pe_python e) (products ?s0) (collect_items form) [] 0")
    case (Inl na)
    obtain n a where "na = (n, a)" by (cases na)
    with Inl show ?thesis using purchase_not_enough_stock[OF g, where s=s and n=n and a=a and cid=cid and vn=vn] s0 by simp
  next
    case (Inr it)
    obtain items t where it: "it = (items, t)" by (cases it)
    with Inr have chk: "check_stock_availability (pe_python e) (products ?s0) (collect_items form) [] 0 =
      Inr (items, t)" by simp
    show ?thesis
    proof (cases "t > get_wallet_balance (pe_balance_read e) cid s")
      case True
      then show ?thesis using purchase_insufficient_balance[OF g chk, where cid=cid and vn=vn] s0 by simp
    next
      case False
      then have le: "t \<le> get_wallet_balance (pe_balance_read e) cid s" by simp
      obtain stop s1 where loop:
        "update_stock_for_items (pe_stock e) 0 (collect_items form) ?s0 = (stop, s1)"
        by (cases "update_stock_for_items (pe_stock e) 0 (collect_items form) ?s0")
      have s1: "stock_nonneg s1"
        using update_stock_for_items_nonneg[OF s0, of "pe_stock e" 0 "collect_items form"] loop
        by simp
      have rend: "stock_nonneg (render_purchase_form e s1)"
        using s1 by (simp add: render_purchase_form_def load_products_nonneg)
      let ?s2 = "snd (save_purchase_invoice (pe_python e) True vn items t (pe_timestamp e) s1)"
      have "same_catalog s1 ?s2" by (rule save_purchase_invoice_catalog)
      moreover have "same_catalog ?s2 (complete_purchase e cid (collect_items form) t ?s2)"
        by (rule complete_purchase_catalog)
      ultimately have "same_catalog s1 (complete_purchase e cid (collect_items form) t ?s2)"
        by (rule same_catalog_trans)
      then have cp: "stock_nonneg (complete_purchase e cid (collect_items form) t ?s2)"
        using s1 by (simp add: same_catalog_nonneg)
      show ?thesis
        unfolding purchase_after_checks[OF g chk le loop, where vn=vn]
        using s1 rend cp by (simp split: option.splits stock_loop_stop.splits)
    qed
  qed
qed

lemma admin_restock_nonneg:
  assumes "stock_nonneg s"
  shows "stock_nonneg (snd (admin_restock e v form s))"
proof (cases "v \<noteq> [] \<and> collect_items form \<noteq> []")
  case False
  then show ?thesis using assms by (auto simp: admin_restock_def Let_def)
next
  case True
  then have g: "v \<noteq> []" "collect_items form \<noteq> []" by simp_all
  show ?thesis
  proof (cases "calculate_total_cost (re_python e) (products s) (collect_items form) 0 []")
    case (Inl pid)
    then show ?thesis using g assms by (simp add: admin_restock_def Let_def)
  next
    case (Inr x)
    obtain tc us where "x = (tc, us)" by (cases x)
    with Inr have calc: "calculate_total_cost (re_python e) (products s) (collect_items form) 0 [] =
      Inr (tc, us)" by simp
    show ?thesis
    proof (cases "tc > admin_balance (get_admin_wallet (re_wallet_read e) s)")
      case True
      then show ?thesis using g calc assms by (simp add: admin_restock_def Let_def)
    next
      case False
      obtain stop s1 where loop: "restock_all_items (re_stock e) 0 us s = (stop, s1)"
        by (cases "restock_all_items (re_stock e) 0 us s")
      have s1: "stock_nonneg s1"
        using restock_all_items_nonneg[OF assms, of "re_stock e" 0 us] loop by simp
      show ?thesis
      proof (cases stop)
        case (Some ne)
        obtain n err where "ne = (n, err)" by (cases ne)
        with Some g calc False loop s1 show ?thesis by (simp add: admin_restock_def Let_def)
      next
        case None
        obtain upd s2 where d:
          "deduct_admin_balance (re_python e) (re_admin_io e) (re_clock e) tc s1 = (upd, s2)"
          by (cases "deduct_admin_balance (re_python e) (re_admin_io e) (re_clock e) tc s1")
        obtain gr s3 where gi: "(if us \<noteq> []
              then generate_restock_invoice (re_python e) (re_invoice e) (re_clock e)
                     (map (\<lambda>u. (su_product_id u, su_amount u, su_cost u)) us) v tc s2
              else (Inr False, s2)) = (gr, s3)"
          by (cases "(if us \<noteq> []
              then generate_restock_invoice (re_python e) (re_invoice e) (re_clock e)
                     (map (\<lambda>u. (su_product_id u, su_amount u, su_cost u)) us) v tc s2
              else (Inr False, s2))")
        have "same_catalog s1 s2"
          using update_admin_wallet_catalog[of s1 "re_python e" "re_admin_io e" "re_clock e" tc "''expense''"] d
          by (simp add: deduct_admin_balance_def)
        moreover have "same_catalog s2 s3"
        proof (cases "us \<noteq> []")
          case True
          with gi have "s3 = snd (generate_restock_invoice (re_python e) (re_invoice e) (re_clock e)
                     (map (\<lambda>u. (su_product_id u, su_amount u, su_cost u)) us) v tc s2)" by simp
          then show ?thesis by (simp add: generate_restock_invoice_catalog)
        next
          case False
          with gi show ?thesis by (simp add: same_catalog_refl)
        qed
        ultimately have "same_catalog s1 s3" by (rule same_catalog_trans)
        then have s3: "stock_nonneg s3" using s1 by (simp add: same_catalog_nonneg)
        show ?thesis
          unfolding admin_restock_after_checks[OF g calc False loop[unfolded None] d gi]
          using s3 by (simp add: load_products_nonneg split: sum.splits)
      qed
    qed
  qed
qed

lemma run_requests_nonneg: "stock_nonneg s \<Longrightarrow> stock_nonneg (run_requests rs s)"
proof (induction rs arbitrary: s)
  case Nil
  then show ?case by simp
next
  case (Cons r rs)
  have "stock_nonneg (handle_request r s)"
    using Cons.prems by (cases r) (simp_all add: purchase_nonneg admin_restock_nonneg)
  then show ?case using Cons.IH by simp
qed

subsection \<open>The example shop\<close>

lemma example_lookup:
  "products example_store 1 = Some \<lparr>name = ''Face Mask'', stock = 20, cost = 100\<rparr>"
  "products example_store 2 = Some \<lparr>name = ''Skin Cleanser'', stock = 5, cost = 280\<rparr>"
  "products example_store 9 = None"
  "products_file example_store = products example_store"
  by (simp_all add: example_store_def example_products_def)

lemma example_trading:
  "products example_store_trading = example_products"
  "products_file example_store_trading = example_products"
  "admin_wallet example_store_trading = example_admin_wallet"
  by (simp_all add: example_store_trading_def example_store_def)

lemma example_restock:
  "fst (admin_restock example_restock_env ''Glow Supplies'' [(1, 10), (2, 4), (1, 0)]
          example_store_trading) = [RestockingCompleted 2120]"
  by (simp add: admin_restock_def collect_items_def example_restock_env_def
        example_store_trading_def example_store_def example_python_def
        example_products_def get_admin_wallet_def example_admin_wallet_def Let_def
        update_product_stock_eq io_fine_def deduct_admin_balance_def update_admin_wallet_def
        generate_restock_invoice_def load_products_eq)

lemma example_purchase:
  "fst (purchase example_purchase_env 7 ''Asha'' [(1, 6), (2, 3), (1, 0)] example_store) =
     PurchaseCompleted"
  by (simp add: purchase_def collect_items_def example_purchase_env_def example_store_def
        example_python_def
        example_products_def get_wallet_balance_def get_customer_wallet_def Let_def
        update_product_stock_eq io_fine_def save_purchase_invoice_def load_products_eq)




subsection \<open>A successful stock update\<close>

lemma update_product_stock_success:
  assumes "update_product_stock e product_id delta s0 = (Inr (old_stock, new_stock), s')"
  shows "new_stock = old_stock + delta \<and> 0 \<le> new_stock"
proof -
  let ?s1 = "if se_load e = Fresh then s0\<lparr>products := products_file s0\<rparr> else s0"
  from assms have l: "se_load e \<noteq> LoadError"
    unfolding update_product_stock_eq by (auto simp: Let_def)
  show ?thesis
  proof (cases "products ?s1 product_id")
    case None
    with assms l show ?thesis unfolding update_product_stock_eq by (simp add: Let_def)
  next
    case (Some p)
    with assms l show ?thesis
      unfolding update_product_stock_eq by (simp add: Let_def split: if_splits)
  qed
qed

lemma stock_suffices_line:
  "stock_suffices ps ls \<Longrightarrow> (pid, q) \<in> set ls \<Longrightarrow> ps pid = Some p \<Longrightarrow>
     q + q div 3 \<le> stock p"
  by (auto simp: stock_suffices_def list_all_iff required_units_def)

subsection \<open>A completed purchase\<close>

lemma purchase_completed:
  assumes "fst (purchase e cid vn form s) = PurchaseCompleted"
  obtains s1 where
    "pe_identity_ok e" "pe_card_ok e" "collect_items form \<noteq> []" "pe_invoice e"
    "stock_suffices (products (snd (load_products (pe_reload e) s))) (collect_items form)"
    "py_sum (pe_python e) (map price (invoice_lines (pe_python e)
        (products (snd (load_products (pe_reload e) s))) (collect_items form)))
       \<le> get_wallet_balance (pe_balance_read e) cid s"
    "update_stock_for_items (pe_stock e) 0 (collect_items form)
        (snd (load_products (pe_reload e) s)) = (None, s1)"
    "snd (purchase e cid vn form s) =
       complete_purchase e cid (collect_items form)
         (py_sum (pe_python e) (map price (invoice_lines (pe_python e)
            (products (snd (load_products (pe_reload e) s))) (collect_items form))))
         (snd (save_purchase_invoice (pe_python e) True vn
            (invoice_lines (pe_python e) (products (snd (load_products (pe_reload e) s)))
               (collect_items form))
            (py_sum (pe_python e) (map price (invoice_lines (pe_python e)
               (products (snd (load_products (pe_reload e) s))) (collect_items form))))
            (pe_timestamp e) s1))"
proof -
  let ?s0 = "snd (load_products (pe_reload e) s)"
  let ?ls = "collect_items form"
  let ?r = "purchase e cid vn form s"
  have g: "pe_identity_ok e \<and> pe_card_ok e \<and> ?ls \<noteq> []"
  proof (rule ccontr)
    assume "\<not> (pe_identity_ok e \<and> pe_card_ok e \<and> ?ls \<noteq> [])"
    from purchase_gates[OF this, where cid=cid and vn=vn and s=s] assms show False by simp
  qed
  then have g1: "pe_identity_ok e" and g2: "pe_card_ok e" and g3: "?ls \<noteq> []" by simp_all
  have suff: "stock_suffices (products ?s0) ?ls"
  proof (rule ccontr)
    assume "\<not> stock_suffices (products ?s0) ?ls"
    from check_stock_availability_Inl[OF this, where items="[]" and t=0 and py="pe_python e"]
    obtain n a where
      "check_stock_availability (pe_python e) (products ?s0) ?ls [] 0 = Inl (n, a)" by blast
    from purchase_not_enough_stock[OF g1 g2 g3 this, where cid=cid and vn=vn] assms
    show False by simp
  qed
  let ?items = "invoice_lines (pe_python e) (products ?s0) ?ls"
  let ?t = "py_sum (pe_python e) (map price ?items)"
  have chk: "check_stock_availability (pe_python e) (products ?s0) ?ls [] 0 = Inr (?items, ?t)"
    using check_stock_availability_suffices[OF suff, where items="[]" and t=0
            and py="pe_python e"]
    by (simp add: py_sum_def)
  have le: "?t \<le> get_wallet_balance (pe_balance_read e) cid s"
  proof (rule ccontr)
    assume "\<not> ?t \<le> get_wallet_balance (pe_balance_read e) cid s"
    then have "?t > get_wallet_balance (pe_balance_read e) cid s" by simp
    from purchase_insufficient_balance[OF g1 g2 g3 chk this, where vn=vn] assms
    show False by simp
  qed
  obtain stop s1 where loop: "update_stock_for_items (pe_stock e) 0 ?ls ?s0 = (stop, s1)"
    by (cases "update_stock_for_items (pe_stock e) 0 ?ls ?s0")
  note r = purchase_after_checks[OF g1 g2 g3 chk le loop, where vn=vn]
  have stop: "stop = None"
    using assms unfolding r by (auto split: option.splits stock_loop_stop.splits)
  have inv: "pe_invoice e"
    using assms unfolding r stop by (auto split: if_splits)
  have fin: "snd ?r = complete_purchase e cid ?ls ?t
               (snd (save_purchase_invoice (pe_python e) True vn ?items ?t (pe_timestamp e)
                  s1))"
    unfolding r stop using inv by simp
  show ?thesis using that[OF g1 g2 g3 inv suff le loop[unfolded stop] fin] .
qed

lemma complete_purchase_unfold:
  "complete_purchase e cid ls t s =
     (let clk = pe_clock e;
          d = ''Purchase: '' @ str_nat (length ls) @ '' items'';
          u = update_wallet_balance (pe_python e) (pe_wallet_io e) (pe_wallet_log e) clk cid
                (- t) s;
          s4 = snd (update_customer_purchase (pe_python e) (pe_customer_io e) clk cid t (snd u));
          s5 = snd (log_customer_transaction (pe_purchase_log e) clk cid ''purchase'' t d (fst u) s4);
          s6 = log_sales (pe_python e) (pe_sale_io e) clk cid (pe_timestamp e) 0 ls s5;
          s7 = snd (log_transaction (pe_transaction_io e) clk cid t ''revenue'' d s6)
      in snd (update_admin_wallet (pe_python e) (pe_admin_io e) clk t ''revenue'' s7))"
  by (simp add: complete_purchase_def Let_def split_def add_revenue_to_admin_def)

lemma invoices_frame:
  "purchase_invoices (snd (update_wallet_balance py io lg clk cid a s)) = purchase_invoices s"
  "purchase_invoices (snd (update_customer_purchase py io clk cid a s)) = purchase_invoices s"
  "purchase_invoices (snd (log_customer_transaction io clk cid ty a d b s)) = purchase_invoices s"
  "purchase_invoices (snd (log_sale io clk cid pid pn q up tp ts s)) = purchase_invoices s"
  "purchase_invoices (snd (log_transaction io clk cid a ty d s)) = purchase_invoices s"
  "purchase_invoices (snd (update_admin_wallet py io clk a ty s)) = purchase_invoices s"
  by (simp_all add: update_wallet_balance_def update_customer_purchase_def
        log_customer_transaction_def log_sale_def log_transaction_def update_admin_wallet_def
        Let_def split: option.splits)

lemma log_sales_invoices:
  "purchase_invoices (log_sales py io clk cid ts i ls s) = purchase_invoices s"
proof (induction ls arbitrary: i s)
  case Nil
  show ?case by simp
next
  case (Cons l ls)
  obtain pid q where l: "l = (pid, q)" by (cases l)
  show ?case
    using Cons.IH l by (cases "products s pid") (simp_all add: invoices_frame)
qed

lemma complete_purchase_invoices:
  "purchase_invoices (complete_purchase e cid ls t s) = purchase_invoices s"
  unfolding complete_purchase_unfold Let_def
  by (simp only: invoices_frame log_sales_invoices)

lemma update_wallet_balance_wallets:
  "wallets (snd (update_wallet_balance py io lg clk cid a s)) =
     (if io
      then (case wallets s cid of
              None \<Rightarrow> wallets s
            | Some w \<Rightarrow> (wallets s)(cid \<mapsto> w\<lparr>balance := py_add py (balance w) a\<rparr>))
      else wallets s)"
  by (simp add: update_wallet_balance_def log_customer_transaction_wallets Let_def
        split: option.splits)

lemma complete_purchase_wallets:
  "wallets (complete_purchase e cid ls t s) =
     (if pe_wallet_io e
      then (case wallets s cid of
              None \<Rightarrow> wallets s
            | Some w \<Rightarrow>
                (wallets s)(cid \<mapsto> w\<lparr>balance := py_add (pe_python e) (balance w) (- t)\<rparr>))
      else wallets s)"
proof -
  have "wallets (complete_purchase e cid ls t s) =
          wallets (snd (update_wallet_balance (pe_python e) (pe_wallet_io e) (pe_wallet_log e)
                          (pe_clock e) cid (- t) s))"
    unfolding complete_purchase_unfold Let_def
    by (simp only: update_admin_wallet_frame log_transaction_frame log_sales_frame
          log_customer_transaction_wallets update_customer_purchase_frame)
  then show ?thesis by (simp add: update_wallet_balance_wallets split: option.splits)
qed

lemma invoice_line_in_lines:
  "(pid, q) \<in> set ls \<Longrightarrow> ps pid = Some p \<Longrightarrow>
     invoice_line py p q \<in> set (invoice_lines py ps ls)"
proof (induction ls)
  case Nil
  then show ?case by simp
next
  case (Cons l ls)
  obtain pid' q' where l: "l = (pid', q')" by (cases l)
  show ?case
  proof (cases "(pid, q) = l")
    case True
    with Cons.prems(2) l show ?thesis by (simp add: invoice_lines_def map_filter_simps)
  next
    case False
    with Cons.prems have "(pid, q) \<in> set ls" by auto
    from Cons.IH[OF this Cons.prems(2)] show ?thesis
      using l by (cases "ps pid'") (simp_all add: invoice_lines_def map_filter_simps)
  qed
qed

lemma collect_items_positive: "(pid, q) \<in> set (collect_items form) \<Longrightarrow> 0 < q"
  by (simp add: collect_items_def)



subsection \<open>The deduction loop\<close>


lemma stock_suffices_append:
  "stock_suffices ps (xs @ ys) \<longleftrightarrow> stock_suffices ps xs \<and> stock_suffices ps ys"
  by (simp add: stock_suffices_def)




subsection \<open>A purchase that stops after the checks\<close>



section \<open>Properties of the loyalty tier\<close>

lemma get_loyalty_tier_mono:
  "p \<le> q \<Longrightarrow> tier_rank (get_loyalty_tier p) \<le> tier_rank (get_loyalty_tier q)"
  by (simp add: get_loyalty_tier_def)

text \<open>
  Claim C7. The loyalty tier is a function of the points alone, with
  tier(0) = none, tier(100) = bronze, tier(500) = silver, tier(1000) = gold and
  tier(2000) = diamond; the bands are 0--99 none, 100--499 bronze, 500--999 silver,
  1000--1999 gold and 2000 and above diamond; and the tier never goes down when the
  points go up.
\<close>

theorem loyalty_tier_bands_monotone:
  "get_loyalty_tier 0 = TNone \<and> get_loyalty_tier 100 = Bronze \<and>
   get_loyalty_tier 500 = Silver \<and> get_loyalty_tier 1000 = Gold \<and>
   get_loyalty_tier 2000 = Diamond \<and>
   (\<forall>p. 0 \<le> p \<and> p \<le> 99 \<longrightarrow> get_loyalty_tier p = TNone) \<and>
   (\<forall>p. 100 \<le> p \<and> p \<le> 499 \<longrightarrow> get_loyalty_tier p = Bronze) \<and>
   (\<forall>p. 500 \<le> p \<and> p \<le> 999 \<longrightarrow> get_loyalty_tier p = Silver) \<and>
   (\<forall>p. 1000 \<le> p \<and> p \<le> 1999 \<longrightarrow> get_loyalty_tier p = Gold) \<and>
   (\<forall>p. 2000 \<le> p \<longrightarrow> get_loyalty_tier p = Diamond) \<and>
   (\<forall>p q. p \<le> q \<longrightarrow> tier_rank (get_loyalty_tier p) \<le> tier_rank (get_loyalty_tier q))"
  by (simp add: get_loyalty_tier_def)

theorem loyalty_tier_bands_monotone_witness:
  "get_loyalty_tier 42 = TNone \<and> get_loyalty_tier 250 = Bronze \<and>
   get_loyalty_tier 999 = Silver \<and> get_loyalty_tier 1500 = Gold \<and>
   get_loyalty_tier 2500 = Diamond \<and>
   tier_rank (get_loyalty_tier 250) \<le> tier_rank (get_loyalty_tier 1500)"
proof -
  note t = loyalty_tier_bands_monotone
  have "(0::int) \<le> 42 \<and> (42::int) \<le> 99" by simp
  with t have a: "get_loyalty_tier 42 = TNone" by blast
  have "(100::int) \<le> 250 \<and> (250::int) \<le> 499" by simp
  with t have b: "get_loyalty_tier 250 = Bronze" by blast
  have "(500::int) \<le> 999 \<and> (999::int) \<le> 999" by simp
  with t have c: "get_loyalty_tier 999 = Silver" by blast
  have "(1000::int) \<le> 1500 \<and> (1500::int) \<le> 1999" by simp
  with t have d: "get_loyalty_tier 1500 = Gold" by blast
  have "(2000::int) \<le> 2500" by simp
  with t have e: "get_loyalty_tier 2500 = Diamond" by blast
  have "(250::int) \<le> 1500" by simp
  with t have f: "tier_rank (get_loyalty_tier 250) \<le> tier_rank (get_loyalty_tier 1500)" by blast
  from a b c d e f show ?thesis by simp
qed

section \<open>Stock mutation\<close>

text \<open>
  Claim C6. For a call \<open>update_product_stock(product_id, delta)\<close> whose forced load at the
  start does not fail, with \<open>old_stock\<close> the stock of the product in the dictionary after
  that load: an unknown product gives a failure with an error; \<open>old_stock + delta < 0\<close>
  gives a failure with the insufficient-stock error and leaves the stock as it is;
  otherwise, when the dictionary is saved, the call succeeds with
  \<open>new_stock = old_stock + delta\<close>, stored in the dictionary and in the file; and when
  saving fails, the stock in the dictionary is put back to \<open>old_stock\<close> and a failure is
  reported.
\<close>

theorem update_product_stock_contract:
  fixes e :: stock_env and s :: store and product_id delta :: int
  defines "s1 \<equiv> snd (load_products (se_load e) s)"
    and "r \<equiv> update_product_stock e product_id delta s"
  assumes "se_load e \<noteq> LoadError"
  shows "(products s1 product_id = None \<longrightarrow> r = (Inl ProductNotFound, s1)) \<and>
         (\<forall>p. products s1 product_id = Some p \<and> stock p + delta < 0 \<longrightarrow>
              r = (Inl (InsufficientStock (stock p)), s1)) \<and>
         (\<forall>p. products s1 product_id = Some p \<and> 0 \<le> stock p + delta \<and> se_save e \<longrightarrow>
              fst r = Inr (stock p, stock p + delta) \<and>
              products (snd r) = (products s1)(product_id \<mapsto> p\<lparr>stock := stock p + delta\<rparr>) \<and>
              products_file (snd r) = products (snd r)) \<and>
         (\<forall>p. products s1 product_id = Some p \<and> 0 \<le> stock p + delta \<and> \<not> se_save e \<longrightarrow>
              fst r = Inl FailedToSave \<and> snd r = s1)"
  using assms(3) unfolding s1_def r_def update_product_stock_eq load_products_eq
  by (auto simp: Let_def)

theorem update_product_stock_contract_witness:
  "se_load io_fine \<noteq> LoadError \<and>
   fst (update_product_stock io_fine 1 (- 8) example_store) = Inr (20, 12) \<and>
   fst (update_product_stock io_fine 1 (- 21) example_store) = Inl (InsufficientStock 20) \<and>
   fst (update_product_stock io_fine 9 1 example_store) = Inl ProductNotFound \<and>
   fst (update_product_stock (io_fine\<lparr>se_save := False\<rparr>) 1 (- 8) example_store) =
     Inl FailedToSave"
proof -
  have l: "se_load io_fine \<noteq> LoadError" "se_load (io_fine\<lparr>se_save := False\<rparr>) \<noteq> LoadError"
    by (simp_all add: io_fine_def)
  have s1: "snd (load_products (se_load io_fine) example_store) = example_store"
    "snd (load_products (se_load (io_fine\<lparr>se_save := False\<rparr>)) example_store) = example_store"
    by (simp_all add: load_products_eq example_lookup)
  have sv: "se_save io_fine" "\<not> se_save (io_fine\<lparr>se_save := False\<rparr>)"
    by (simp_all add: io_fine_def)
  note c1 = update_product_stock_contract[OF l(1), of example_store 1 "- 8", unfolded s1]
  note c2 = update_product_stock_contract[OF l(1), of example_store 1 "- 21", unfolded s1]
  note c3 = update_product_stock_contract[OF l(1), of example_store 9 1, unfolded s1]
  note c4 = update_product_stock_contract[OF l(2), of example_store 1 "- 8", unfolded s1]
  have a: "fst (update_product_stock io_fine 1 (- 8) example_store) = Inr (20, 12)"
    using c1 example_lookup(1) sv(1) by simp
  have b: "fst (update_product_stock io_fine 1 (- 21) example_store) = Inl (InsufficientStock 20)"
    using c2 example_lookup(1) by simp
  have c: "fst (update_product_stock io_fine 9 1 example_store) = Inl ProductNotFound"
    using c3 example_lookup(3) by simp
  have d: "fst (update_product_stock (io_fine\<lparr>se_save := False\<rparr>) 1 (- 8) example_store) =
     Inl FailedToSave"
    using c4 example_lookup(1) sv(2) by simp
  from l(1) a b c d show ?thesis by simp
qed

section \<open>Stock is never negative\<close>

text \<open>
  Claim C1. Starting from a catalog without negative stock (in the dictionary and in
  the file), no product has a negative stock after any sequence of purchase and restock
  requests, whether they reported success or not. The two handlers change the stock
  through \<open>update_product_stock\<close> only, and a call of it that succeeds has
  \<open>new_stock = old_stock + delta\<close> with \<open>new_stock\<close> not negative: a delta that would make
  the stock negative is refused.
\<close>

theorem stock_never_negative:
  assumes "stock_nonneg s"
  shows "stock_nonneg (run_requests rs s) \<and>
         (\<forall>e product_id delta old_stock new_stock s0 s'.
            update_product_stock e product_id delta s0 = (Inr (old_stock, new_stock), s') \<longrightarrow>
              new_stock = old_stock + delta \<and> 0 \<le> new_stock)"
proof
  show "stock_nonneg (run_requests rs s)" using assms by (rule run_requests_nonneg)
  show "\<forall>e product_id delta old_stock new_stock s0 s'.
            update_product_stock e product_id delta s0 = (Inr (old_stock, new_stock), s') \<longrightarrow>
              new_stock = old_stock + delta \<and> 0 \<le> new_stock"
    using update_product_stock_success by blast
qed

theorem stock_never_negative_witness:
  "stock_nonneg example_store \<and>
   stock_nonneg (run_requests
     [PurchaseRequest example_purchase_env 7 ''Asha'' [(1, 6)],
      RestockRequest example_restock_env ''Glow Supplies'' [(2, 10)]] example_store)"
proof -
  have h: "stock_nonneg example_store"
    by (auto simp: stock_nonneg_def example_store_def example_products_def split: if_splits)
  from stock_never_negative[OF h] h show ?thesis by blast
qed

section \<open>Restocking\<close>

text \<open>
  Claim C5. When a restock request reports success (it flashes ``Restocking completed
  successfully'' for the amount \<open>c\<close>), \<open>c\<close> is the sum over its lines of quantity times
  the product's cost, each product and the sum being computed by the interpreter, from
  \<open>0\<close> and line after line; the balance of the admin wallet is the balance before the
  request less \<open>c\<close>, by one subtraction of the interpreter; the number of transactions
  has gone up by exactly 1 whatever the number of lines; and the total revenue is as it
  was. In general \<open>update_admin_wallet\<close> changes the total revenue for the type
  \<open>'revenue'\<close> only. Nothing is supposed about the arithmetic of the interpreter.
\<close>

theorem restock_debits_admin_wallet:
  assumes "RestockingCompleted c \<in> set (fst (admin_restock e vendor_name form_items s))"
  shows "c = py_sum (re_python e)
               (map (line_cost (re_python e) (products s)) (collect_items form_items)) \<and>
         admin_balance (admin_wallet (snd (admin_restock e vendor_name form_items s))) =
           py_sub (re_python e) (admin_balance (admin_wallet s)) c \<and>
         total_transactions (admin_wallet (snd (admin_restock e vendor_name form_items s))) =
           total_transactions (admin_wallet s) + 1 \<and>
         total_revenue (admin_wallet (snd (admin_restock e vendor_name form_items s))) =
           total_revenue (admin_wallet s) \<and>
         (\<forall>py io_ok clk amount transaction_type s0. transaction_type \<noteq> ''revenue'' \<longrightarrow>
            total_revenue (admin_wallet
              (snd (update_admin_wallet py io_ok clk amount transaction_type s0))) =
            total_revenue (admin_wallet s0))"
  using admin_restock_completed[OF assms]
  by (simp add: update_admin_wallet_def Let_def)

text \<open>
  A restock of three form lines, two of them with a quantity (10 Face Masks at 100 and
  4 Skin Cleansers at 280), in the shop whose admin wallet has a history: 2120 is
  deducted from 51200, the transactions go from 3 to 4, the revenue stays 1200.
\<close>

theorem restock_debits_admin_wallet_witness:
  "RestockingCompleted 2120 \<in>
     set (fst (admin_restock example_restock_env ''Glow Supplies'' [(1, 10), (2, 4), (1, 0)]
                 example_store_trading)) \<and>
   collect_items [(1, 10), (2, 4), (1, 0)] = [(1, 10), (2, 4)] \<and>
   map (line_cost example_python (products example_store_trading)) [(1, 10), (2, 4)] =
     [1000, 1120] \<and>
   admin_wallet example_store_trading =
     \<lparr>admin_balance = 51200, total_revenue = 1200, total_transactions = 3,
      last_updated = Some ''2025-11-19 17:40:12''\<rparr> \<and>
   admin_balance (admin_wallet
     (snd (admin_restock example_restock_env ''Glow Supplies'' [(1, 10), (2, 4), (1, 0)]
             example_store_trading))) = 49080 \<and>
   total_transactions (admin_wallet
     (snd (admin_restock example_restock_env ''Glow Supplies'' [(1, 10), (2, 4), (1, 0)]
             example_store_trading))) = 4 \<and>
   total_revenue (admin_wallet
     (snd (admin_restock example_restock_env ''Glow Supplies'' [(1, 10), (2, 4), (1, 0)]
             example_store_trading))) = 1200"
proof -
  have h: "RestockingCompleted 2120 \<in>
     set (fst (admin_restock example_restock_env ''Glow Supplies'' [(1, 10), (2, 4), (1, 0)]
                 example_store_trading))"
    by (simp add: example_restock)
  have ls: "collect_items [(1, 10), (2, 4), (1, 0)] = [(1, 10), (2, 4)]"
    by (simp add: collect_items_def)
  have py: "re_python example_restock_env = example_python"
    by (simp add: example_restock_env_def)
  have lc: "map (line_cost example_python (products example_store_trading)) [(1, 10), (2, 4)] =
              [1000, 1120]"
    by (simp add: line_cost_def example_trading example_products_def example_python_def)
  have sub: "py_sub example_python 51200 2120 = 49080" by (simp add: example_python_def)
  from restock_debits_admin_wallet[OF h] h ls lc sub show ?thesis
    by (simp add: py example_trading example_admin_wallet_def)
qed

section \<open>The stock check of a purchase\<close>

text \<open>
  Claim C4. When some line of a purchase asks for more units (\<open>q + q div 3\<close>) than the
  stock of its product in the dictionary, as reloaded at the start of the request, the
  purchase is not completed (with both verifications passed, the answer is the
  not-enough-stock message), and no stock is changed: the state is the one the request
  started in, or that state with the file reloaded into the dictionary; the file and
  everything outside the catalog are as before. The check runs over all lines before
  the first deduction.
\<close>

theorem purchase_rejected_without_stock_change:
  assumes "(product_id, q) \<in> set (collect_items form_items)"
    and "products (snd (load_products (pe_reload e) s)) product_id = Some p"
    and "q + q div 3 > stock p"
  shows "fst (purchase e customer_id verify_name form_items s) \<noteq> PurchaseCompleted \<and>
         (pe_identity_ok e \<and> pe_card_ok e \<longrightarrow>
            (\<exists>n available. fst (purchase e customer_id verify_name form_items s) =
                             NotEnoughStock n available)) \<and>
         (snd (purchase e customer_id verify_name form_items s) = s \<or>
          snd (purchase e customer_id verify_name form_items s) =
            snd (load_products (pe_reload e) s)) \<and>
         products_file (snd (purchase e customer_id verify_name form_items s)) = products_file s \<and>
         outside_catalog (snd (purchase e customer_id verify_name form_items s)) =
           outside_catalog s"
proof -
  let ?s0 = "snd (load_products (pe_reload e) s)"
  let ?r = "purchase e customer_id verify_name form_items s"
  have file0: "products_file ?s0 = products_file s" by (simp add: load_products_eq)
  have out0: "outside_catalog ?s0 = outside_catalog s" by (rule load_products_outside)
  show ?thesis
  proof (cases "pe_identity_ok e \<and> pe_card_ok e")
    case False
    then have "\<not> (pe_identity_ok e \<and> pe_card_ok e \<and> collect_items form_items \<noteq> [])"
      by blast
    from purchase_gates[OF this, where cid=customer_id and vn=verify_name and s=s]
    have "snd ?r = s" "fst ?r \<noteq> PurchaseCompleted" by simp_all
    with False show ?thesis by auto
  next
    case True
    from assms(1) have ne: "collect_items form_items \<noteq> []" by auto
    have "\<not> stock_suffices (products ?s0) (collect_items form_items)"
    proof
      assume "stock_suffices (products ?s0) (collect_items form_items)"
      from stock_suffices_line[OF this assms(1) assms(2)] assms(3) show False by simp
    qed
    from check_stock_availability_Inl[OF this, where items="[]" and t=0 and py="pe_python e"]
    obtain n a where
      "check_stock_availability (pe_python e) (products ?s0) (collect_items form_items) [] 0 =
         Inl (n, a)"
      by blast
    from purchase_not_enough_stock[OF _ _ ne this, where cid=customer_id and vn=verify_name] True
    have "?r = (NotEnoughStock n a, ?s0)" by simp
    then show ?thesis using file0 out0 by simp
  qed
qed


theorem purchase_rejected_without_stock_change_witness:
  "(2, 5) \<in> set (collect_items [(1, 6), (2, 5)]) \<and>
   products (snd (load_products (pe_reload example_purchase_env) example_store)) 2 =
     Some \<lparr>name = ''Skin Cleanser'', stock = 5, cost = 280\<rparr> \<and>
   (5::int) + 5 div 3 > stock \<lparr>name = ''Skin Cleanser'', stock = 5, cost = 280\<rparr> \<and>
   fst (purchase example_purchase_env 7 ''Asha'' [(1, 6), (2, 5)] example_store) \<noteq>
     PurchaseCompleted \<and>
   products_file (snd (purchase example_purchase_env 7 ''Asha'' [(1, 6), (2, 5)] example_store)) =
     products_file example_store \<and>
   outside_catalog (snd (purchase example_purchase_env 7 ''Asha'' [(1, 6), (2, 5)] example_store)) =
     outside_catalog example_store"
proof -
  have a: "(2, 5) \<in> set (collect_items [(1, 6), (2, 5)])" by (simp add: collect_items_def)
  have b: "products (snd (load_products (pe_reload example_purchase_env) example_store)) 2 =
     Some \<lparr>name = ''Skin Cleanser'', stock = 5, cost = 280\<rparr>"
    by (simp add: load_products_eq example_lookup)
  have c: "(5::int) + 5 div 3 > stock \<lparr>name = ''Skin Cleanser'', stock = 5, cost = 280\<rparr>"
    by simp
  from purchase_rejected_without_stock_change[OF a b c, where customer_id=7
         and verify_name="''Asha''"] a b c
  show ?thesis by simp
qed

section \<open>Pricing of a purchase\<close>

text \<open>
  Claim C3. In a completed purchase every purchased line has a quantity \<open>q > 0\<close>; for a
  line of quantity \<open>q\<close> of a catalog product \<open>p\<close>, \<open>q + q div 3\<close> units were available in
  stock, and the invoice has the line with \<open>free = q div 3\<close> bonus units and the price
  \<open>cost p * 2 * q\<close>, the two products being taken by the interpreter from left to right
  (the free units are not charged); the total of the invoice is the sum of the prices
  of its lines, added up by the interpreter from \<open>0\<close> in the order of the lines; and the
  wallet is debited by that total: its balance is the sum, taken by the interpreter, of
  the balance before and the negated total (when the wallet file can be read and
  written). The invoice is the one that the request wrote, under the file name built
  from the customer's name, the first item, the number of items and the date; its lines
  and its total are the values that \<open>save_purchase_invoice\<close> was given. Nothing is
  supposed about the arithmetic of the interpreter.
\<close>

theorem purchase_pricing:
  fixes e :: purchase_env and s :: store and form_items :: "(int \<times> int) list"
    and customer_id :: int and verify_name :: string
  defines "py \<equiv> pe_python e"
    and "ps \<equiv> products (snd (load_products (pe_reload e) s))"
    and "purchased_items \<equiv> collect_items form_items"
    and "r \<equiv> purchase e customer_id verify_name form_items s"
  defines "items \<equiv> invoice_lines py ps purchased_items"
  defines "t \<equiv> py_sum py (map price items)"
  assumes "fst r = PurchaseCompleted"
  shows "(\<forall>(product_id, q) \<in> set purchased_items. 0 < q \<and>
            (\<forall>p. ps product_id = Some p \<longrightarrow>
               q + q div 3 \<le> stock p \<and>
               \<lparr>item_name = name p, qty = q, free = q div 3,
                price = py_mul py (py_mul py (cost p) 2) (py_float py q)\<rparr> \<in> set items)) \<and>
         purchase_invoices (snd r)
             (purchase_invoice_filename py verify_name items (pe_timestamp e)) =
           Some \<lparr>inv_customer = verify_name, inv_items = items, inv_total = t,
                 inv_timestamp = pe_timestamp e\<rparr> \<and>
         (\<forall>w. pe_wallet_io e \<and> wallets s customer_id = Some w \<longrightarrow>
            wallets (snd r) customer_id = Some (w\<lparr>balance := py_add py (balance w) (- t)\<rparr>))"
proof -
  let ?s0 = "snd (load_products (pe_reload e) s)"
  from assms(7)[unfolded r_def] obtain s1 where
    suff: "stock_suffices (products ?s0) (collect_items form_items)"
    and loop: "update_stock_for_items (pe_stock e) 0 (collect_items form_items) ?s0 = (None, s1)"
    and fin: "snd (purchase e customer_id verify_name form_items s) =
       complete_purchase e customer_id (collect_items form_items)
         (py_sum (pe_python e) (map price (invoice_lines (pe_python e)
            (products ?s0) (collect_items form_items))))
         (snd (save_purchase_invoice (pe_python e) True verify_name
            (invoice_lines (pe_python e) (products ?s0) (collect_items form_items))
            (py_sum (pe_python e) (map price (invoice_lines (pe_python e)
               (products ?s0) (collect_items form_items))))
            (pe_timestamp e) s1))"
    by (rule purchase_completed)
  have "outside_catalog s1 = outside_catalog ?s0"
    using update_stock_for_items_outside[of "pe_stock e" 0 "collect_items form_items" ?s0] loop
    by simp
  then have out: "outside_catalog s1 = outside_catalog s" by (simp add: load_products_outside)
  have w1: "wallets s1 = wallets s"
    using out by (rule outside_catalog_fields)
  have lines: "\<forall>(product_id, q) \<in> set purchased_items. 0 < q \<and>
            (\<forall>p. ps product_id = Some p \<longrightarrow>
               q + q div 3 \<le> stock p \<and>
               \<lparr>item_name = name p, qty = q, free = q div 3,
                price = py_mul py (py_mul py (cost p) 2) (py_float py q)\<rparr> \<in> set items)"
  proof (clarify, intro conjI allI impI)
    fix pid q
    assume m: "(pid, q) \<in> set purchased_items"
    then show "0 < q" unfolding purchased_items_def by (rule collect_items_positive)
    fix p
    assume p: "ps pid = Some p"
    show "q + q div 3 \<le> stock p"
      using stock_suffices_line[of "products ?s0" "collect_items form_items" pid q p,
              OF suff m[unfolded purchased_items_def] p[unfolded ps_def]] .
    show "\<lparr>item_name = name p, qty = q, free = q div 3,
           price = py_mul py (py_mul py (cost p) 2) (py_float py q)\<rparr> \<in> set items"
      using invoice_line_in_lines[of pid q purchased_items ps p py, OF m p]
      by (simp add: invoice_line_def items_def)
  qed
  have invs: "purchase_invoices (snd r)
             (purchase_invoice_filename py verify_name items (pe_timestamp e)) =
           Some \<lparr>inv_customer = verify_name, inv_items = items, inv_total = t,
                 inv_timestamp = pe_timestamp e\<rparr>"
    unfolding r_def fin t_def items_def py_def ps_def purchased_items_def
    by (simp add: complete_purchase_invoices save_purchase_invoice_def)
  have wal: "\<forall>w. pe_wallet_io e \<and> wallets s customer_id = Some w \<longrightarrow>
            wallets (snd r) customer_id = Some (w\<lparr>balance := py_add py (balance w) (- t)\<rparr>)"
    unfolding r_def fin t_def items_def py_def ps_def purchased_items_def
    by (simp add: complete_purchase_wallets save_purchase_invoice_def w1)
  from lines invs wal show ?thesis by blast
qed

text \<open>
  A purchase of three form lines, two of them with a quantity: 6 Face Masks at cost
  100 (2 free, 8 of the 20 in stock are needed, price 1200) and 3 Skin Cleansers at
  cost 280 (1 free, 4 of the 5 in stock are needed, price 1680). The total is 2880 and
  the wallet goes from 5000 to 2120.
\<close>

theorem purchase_pricing_witness:
  "fst (purchase example_purchase_env 7 ''Asha'' [(1, 6), (2, 3), (1, 0)] example_store) =
     PurchaseCompleted \<and>
   collect_items [(1, 6), (2, 3), (1, 0)] = [(1, 6), (2, 3)] \<and>
   purchase_invoices
     (snd (purchase example_purchase_env 7 ''Asha'' [(1, 6), (2, 3), (1, 0)] example_store))
     ''Asha_face_mask_and_1_more_20251120.txt'' =
     Some \<lparr>inv_customer = ''Asha'',
           inv_items = [\<lparr>item_name = ''Face Mask'', qty = 6, free = 2, price = 1200\<rparr>,
                        \<lparr>item_name = ''Skin Cleanser'', qty = 3, free = 1, price = 1680\<rparr>],
           inv_total = 2880, inv_timestamp = ''2025-11-20''\<rparr> \<and>
   wallets example_store 7 = Some \<lparr>balance = 5000\<rparr> \<and>
   wallets (snd (purchase example_purchase_env 7 ''Asha'' [(1, 6), (2, 3), (1, 0)]
                   example_store)) 7 =
     Some \<lparr>balance = 2120\<rparr>"
proof -
  note h = example_purchase
  have py: "pe_python example_purchase_env = example_python"
    and ts: "pe_timestamp example_purchase_env = ''2025-11-20''"
    and io: "pe_wallet_io example_purchase_env"
    by (simp_all add: example_purchase_env_def)
  have ps: "products (snd (load_products (pe_reload example_purchase_env) example_store)) =
              example_products"
    by (simp add: load_products_eq example_store_def)
  have ls: "collect_items [(1, 6), (2, 3), (1, 0)] = [(1, 6), (2, 3)]"
    by (simp add: collect_items_def)
  have il: "invoice_lines example_python example_products [(1, 6), (2, 3)] =
              [\<lparr>item_name = ''Face Mask'', qty = 6, free = 2, price = 1200\<rparr>,
               \<lparr>item_name = ''Skin Cleanser'', qty = 3, free = 1, price = 1680\<rparr>]"
    by (simp add: invoice_lines_def map_filter_simps invoice_line_def example_products_def
          example_python_def)
  have tot: "py_sum example_python [1200, 1680] = 2880"
    by (simp add: py_sum_def example_python_def)
  have fn: "purchase_invoice_filename example_python ''Asha''
              [\<lparr>item_name = ''Face Mask'', qty = 6, free = 2, price = 1200\<rparr>,
               \<lparr>item_name = ''Skin Cleanser'', qty = 3, free = 1, price = 1680\<rparr>]
              ''2025-11-20'' = ''Asha_face_mask_and_1_more_20251120.txt''"
    by code_simp
  have deb: "py_add example_python 5000 (- 2880) = 2120" by (simp add: example_python_def)
  have w: "wallets example_store 7 = Some \<lparr>balance = 5000\<rparr>"
    by (simp add: example_store_def)
  from purchase_pricing[OF h, unfolded py ps ls il ts] h ls w io show ?thesis
    by (simp add: tot fn deb)
qed

section \<open>The customer's ledger\<close>




section \<open>A line of an unknown product\<close>




section \<open>A receipt that cannot be written\<close>



section \<open>The admin wallet\<close>

text \<open>
  Claim C10. A call of \<open>update_admin_wallet\<close> whose transaction type is neither
  \<open>'revenue'\<close> nor \<open>'expense'\<close>, and which returns the wallet (its file was read and
  written), leaves the balance and the total revenue as they were, while the number of
  transactions still goes up by 1 and \<open>last_updated\<close> is still set to the current time.
\<close>

theorem update_admin_wallet_other_type:
  assumes "transaction_type \<noteq> ''revenue''" "transaction_type \<noteq> ''expense''"
    and "update_admin_wallet py io_ok clk amount transaction_type s = (Some w', s')"
  shows "admin_wallet s' = w' \<and>
         admin_balance w' = admin_balance (admin_wallet s) \<and>
         total_revenue w' = total_revenue (admin_wallet s) \<and>
         total_transactions w' = total_transactions (admin_wallet s) + 1 \<and>
         last_updated w' = Some (now clk)"
  using assms by (auto simp: update_admin_wallet_def Let_def split: if_splits)

theorem update_admin_wallet_other_type_witness:
  "''refund'' \<noteq> ''revenue'' \<and> ''refund'' \<noteq> ''expense'' \<and>
   fst (update_admin_wallet example_python True example_clock 250 ''refund'' example_store) =
     Some \<lparr>admin_balance = 50000, total_revenue = 0, total_transactions = 1,
           last_updated = Some ''2025-11-20 10:15:00''\<rparr> \<and>
   admin_wallet
     (snd (update_admin_wallet example_python True example_clock 250 ''refund'' example_store)) =
     \<lparr>admin_balance = 50000, total_revenue = 0, total_transactions = 1,
      last_updated = Some ''2025-11-20 10:15:00''\<rparr>"
proof -
  let ?w = "\<lparr>admin_balance = 50000, total_revenue = 0, total_transactions = 1,
              last_updated = Some ''2025-11-20 10:15:00''\<rparr>"
  have t: "''refund'' \<noteq> ''revenue''" "''refund'' \<noteq> ''expense''" by simp_all
  have r: "update_admin_wallet example_python True example_clock 250 ''refund'' example_store =
             (Some ?w, example_store\<lparr>admin_wallet := ?w\<rparr>)"
    by (simp add: update_admin_wallet_def Let_def example_store_def default_admin_wallet_def
          example_clock_def)
  from update_admin_wallet_other_type[OF t r] t r show ?thesis by simp
qed

end
